theory Spec2Isabelle
  imports Main "HOL-Library.Sublist"
begin

section \<open>JavaScript values and string operations\<close>

text \<open>
  The front end is TypeScript. What it reads out of parsed JSON is typed \<open>any\<close>, so the
  model carries JavaScript values. Numbers are the integral ones; strings are character
  lists. A parsed object is an association list in which the first binding of a key is
  the value of the property.
\<close>

datatype jsval =
    JUndefined
  | JNull
  | JBool bool
  | JNum int
  | JStr string
  | JArr "jsval list"
  | JObj "(string \<times> jsval) list"

type_synonym jsobject = "(string \<times> jsval) list"

text \<open>\<open>obj.k\<close> on an object: the value, or \<open>undefined\<close> when the property is absent.\<close>

definition get_prop :: "jsobject \<Rightarrow> string \<Rightarrow> jsval" where
  "get_prop obj k = (case map_of obj k of Some v \<Rightarrow> v | None \<Rightarrow> JUndefined)"

text \<open>What \<open>x || y\<close> and \<open>if (x)\<close> test.\<close>

fun truthy :: "jsval \<Rightarrow> bool" where
  "truthy JUndefined = False"
| "truthy JNull = False"
| "truthy (JBool b) = b"
| "truthy (JNum n) = (n \<noteq> 0)"
| "truthy (JStr s) = (s \<noteq> [])"
| "truthy (JArr xs) = True"
| "truthy (JObj kvs) = True"

text \<open>The decimal digits of a natural number, for the string conversion of a number.\<close>

definition digit_char :: "nat \<Rightarrow> char" where
  "digit_char d = ''0123456789'' ! d"

function string_of_nat :: "nat \<Rightarrow> string" where
  "string_of_nat n =
     (if n < 10 then [digit_char n] else string_of_nat (n div 10) @ [digit_char (n mod 10)])"
  by pat_completeness auto
termination
  by (relation "measure id") auto

declare string_of_nat.simps [simp del]

fun join_comma :: "string list \<Rightarrow> string" where
  "join_comma [] = []"
| "join_comma [s] = s"
| "join_comma (s # t # ss) = s @ '','' @ join_comma (t # ss)"

text \<open>
  The string conversion of \<open>new Error(x)\<close> and of \<open>s += x\<close>: an array joins its
  elements with commas (\<open>null\<close> and \<open>undefined\<close> elements as the empty string), an
  object is \<open>[object Object]\<close>.
\<close>

fun ToString :: "jsval \<Rightarrow> string" where
  "ToString JUndefined = ''undefined''"
| "ToString JNull = ''null''"
| "ToString (JBool b) = (if b then ''true'' else ''false'')"
| "ToString (JNum n) =
     (if n < 0 then ''-'' @ string_of_nat (nat (- n)) else string_of_nat (nat n))"
| "ToString (JStr s) = s"
| "ToString (JArr xs) =
     join_comma (map (\<lambda>v. if v = JUndefined \<or> v = JNull then [] else ToString v) xs)"
| "ToString (JObj kvs) = ''[object Object]''"

text \<open>White space as \<open>String.prototype.trim\<close> sees it, on ASCII.\<close>

definition is_space :: "char \<Rightarrow> bool" where
  "is_space c = (c \<in> {CHR 0x09, CHR 0x0A, CHR 0x0B, CHR 0x0C, CHR 0x0D, CHR 0x20})"

definition trim :: "string \<Rightarrow> string" where
  "trim s = rev (dropWhile is_space (rev (dropWhile is_space s)))"

text \<open>\<open>s.split(c)\<close> for a one-character separator: never the empty list.\<close>

fun split_str :: "char \<Rightarrow> string \<Rightarrow> string list" where
  "split_str c [] = [[]]"
| "split_str c (x # xs) =
     (if x = c then [] # split_str c xs
      else (case split_str c xs of [] \<Rightarrow> [[x]] | l # ls \<Rightarrow> (x # l) # ls))"

definition startsWith :: "string \<Rightarrow> string \<Rightarrow> bool" where
  "startsWith s p = (take (length p) s = p)"

definition endsWith :: "string \<Rightarrow> string \<Rightarrow> bool" where
  "endsWith s p = (drop (length s - length p) s = p)"

definition lower_char :: "char \<Rightarrow> char" where
  "lower_char c =
     (case map_of (zip ''ABCDEFGHIJKLMNOPQRSTUVWXYZ'' ''abcdefghijklmnopqrstuvwxyz'') c of
        Some l \<Rightarrow> l
      | None \<Rightarrow> c)"

text \<open>\<open>s.toLowerCase()\<close> on ASCII.\<close>

definition toLowerCase :: "string \<Rightarrow> string" where
  "toLowerCase s = map lower_char s"

text \<open>
  \<open>xs.slice(-n)\<close> for a positive \<open>n\<close>: the last \<open>n\<close> elements, all of them when there
  are fewer.
\<close>

definition slice_last :: "nat \<Rightarrow> 'a list \<Rightarrow> 'a list" where
  "slice_last n xs = drop (length xs - n) xs"

section \<open>The HTTP boundary (\<open>lib/api.ts\<close>)\<close>

datatype role = User | Assistant

record Message =
  role :: role
  content :: string

text \<open>A browser \<open>File\<close>, as far as the code reads it: \<open>file.name\<close> and \<open>file.size\<close>.\<close>

record File =
  file_name :: string
  file_size :: nat

datatype http_method = GET | POST | DELETE

text \<open>
  A request body: none, the form data holding the file, or the JSON text of
  \<open>{message, history}\<close>, kept as the two values it is built from. A request is its
  method, URL and body; the one header the code sets, the content type of the chat
  request, is left out.
\<close>

datatype payload = NoBody | FormData File | ChatJson string "Message list"

record request =
  req_method :: http_method
  req_url :: string
  req_body :: payload

text \<open>
  The body of a streamed response, as \<open>reader.read()\<close> hands it over: the decoded text
  of each chunk, then either the end of the stream or a failed read (the connection was
  lost), which rejects with a \<open>TypeError\<close>.
\<close>

datatype read_end = EndOfStream | ConnectionLost string

type_synonym reader = "string list \<times> read_end"

text \<open>
  A response: its status, what \<open>response.json()\<close> settles to, and what
  \<open>response.body?.getReader()\<close> gives. \<open>response.json()\<close> either rejects with a
  \<open>SyntaxError\<close> (\<open>Inl\<close> its message) or resolves with the parsed body (\<open>Inr\<close>), which
  is any JSON value: nothing at run time makes it the object the interfaces of \<open>api.ts\<close>
  declare. \<open>response.ok\<close> is the Fetch standard's: a status from 200 to 299.
\<close>

record response =
  status :: nat
  json :: "string + jsval"
  body :: "reader option"

definition ok :: "response \<Rightarrow> bool" where
  "ok r = (200 \<le> status r \<and> status r \<le> 299)"

text \<open>
  What a promise rejects with: the \<open>Error\<close> the code throws, the \<open>SyntaxError\<close> of
  \<open>response.json()\<close>, the \<open>TypeError\<close> of a \<open>fetch\<close> that gets no response, of a failed
  read and of a property read off \<open>null\<close>. All are instances of \<open>Error\<close>, with a
  \<open>message\<close>.
\<close>

datatype error = Error string | SyntaxError string | TypeError string

fun error_message :: "error \<Rightarrow> string" where
  "error_message (Error m) = m"
| "error_message (SyntaxError m) = m"
| "error_message (TypeError m) = m"

text \<open>
  \<open>fetch\<close> is the outside world: it answers a request with a response, or rejects when
  it gets none (\<open>Inl\<close>), and moves the world on. Every client operation returns the
  exchanges it made, in order, beside its outcome.
\<close>

type_synonym 'w fetch = "request \<Rightarrow> 'w \<Rightarrow> (error + response) \<times> 'w"

type_synonym exchange = "request \<times> (error + response)"

text \<open>
  \<open>v.k\<close> on any value, for the property names the code reads (\<open>detail\<close>, \<open>documents\<close>,
  \<open>message\<close>, \<open>chunks_created\<close>), none of which a string, a number, a boolean or an
  array has: the read throws a \<open>TypeError\<close> on \<open>null\<close> and \<open>undefined\<close>.
\<close>

definition read_prop :: "jsval \<Rightarrow> string \<Rightarrow> error + jsval" where
  "read_prop v k =
     (case v of
        JObj obj \<Rightarrow> Inr (get_prop obj k)
      | JNull \<Rightarrow>
          Inl (TypeError (''Cannot read properties of null (reading '' @ [CHR 0x27] @ k
                          @ [CHR 0x27] @ '')''))
      | JUndefined \<Rightarrow>
          Inl (TypeError (''Cannot read properties of undefined (reading '' @ [CHR 0x27] @ k
                          @ [CHR 0x27] @ '')''))
      | _ \<Rightarrow> Inr JUndefined)"

definition DEFAULT_API_URL :: string where
  "DEFAULT_API_URL = ''http://localhost:8000''"

text \<open>\<open>process.env.NEXT_PUBLIC_API_URL || 'http://localhost:8000'\<close>.\<close>

definition API_BASE_URL :: "string option \<Rightarrow> string" where
  "API_BASE_URL env =
     (case env of None \<Rightarrow> DEFAULT_API_URL | Some u \<Rightarrow> if u = [] then DEFAULT_API_URL else u)"

definition API_VERSION :: string where
  "API_VERSION = ''/api/v1''"

definition LEGACY_API :: string where
  "LEGACY_API = ''/api''"

text \<open>\<open>return response.json()\<close>.\<close>

definition response_json :: "response \<Rightarrow> error + jsval" where
  "response_json r = (case json r of Inl m \<Rightarrow> Inl (SyntaxError m) | Inr v \<Rightarrow> Inr v)"

text \<open>
  What every operation throws on a response that is not ok:
  \<open>const error = await response.json().catch(() => ({ detail: d1 }));
  throw new Error(error.detail || d2)\<close>. The read of \<open>error.detail\<close> throws its own
  \<open>TypeError\<close> when the body is \<open>null\<close>.
\<close>

definition http_error :: "response \<Rightarrow> string \<Rightarrow> string \<Rightarrow> error" where
  "http_error r d1 d2 =
     (let error = (case json r of Inl m \<Rightarrow> JObj [(''detail'', JStr d1)] | Inr v \<Rightarrow> v)
      in case read_prop error ''detail'' of
           Inl e \<Rightarrow> e
         | Inr detail \<Rightarrow> Error (ToString (if truthy detail then detail else JStr d2)))"

text \<open>
  In each operation an \<open>await fetch(...)\<close> that rejects ends the call with that
  rejection.
\<close>

definition uploadDocument ::
  "string option \<Rightarrow> 'w fetch \<Rightarrow> File \<Rightarrow> 'w \<Rightarrow> exchange list \<times> (error + jsval) \<times> 'w" where
  "uploadDocument env fetch file w =
     (let req1 = \<lparr>req_method = POST, req_url = API_BASE_URL env @ API_VERSION @ ''/ingest'',
                  req_body = FormData file\<rparr>;
          (a1, w1) = fetch req1 w
      in case a1 of
           Inl e \<Rightarrow> ([(req1, a1)], Inl e, w1)
         | Inr r1 \<Rightarrow>
             (let (xs, a, w') =
                    (if status r1 = 404 then
                       (let req2 = \<lparr>req_method = POST,
                                     req_url = API_BASE_URL env @ LEGACY_API @ ''/ingest'',
                                     req_body = FormData file\<rparr>;
                            (a2, w2) = fetch req2 w1
                        in ([(req1, a1), (req2, a2)], a2, w2))
                     else ([(req1, a1)], a1, w1))
              in case a of
                   Inl e \<Rightarrow> (xs, Inl e, w')
                 | Inr response \<Rightarrow>
                     if \<not> ok response
                     then (xs, Inl (http_error response ''Upload failed''
                                      ''Failed to upload document''), w')
                     else (xs, response_json response, w')))"

text \<open>
  The stream consumer of \<open>sendChatMessage\<close>. \<open>JSON.parse\<close> is a parameter: \<open>None\<close>
  where it throws. A parsed value that is not an object has no \<open>type\<close> property (the
  read gives \<open>undefined\<close>, or throws on \<open>null\<close> inside the \<open>try\<close>), so no branch
  is taken for it.
\<close>

datatype callback = OnContent jsval | OnSources jsval

definition handle_line :: "(string \<Rightarrow> jsval option) \<Rightarrow> string \<Rightarrow> callback list" where
  "handle_line JSON_parse line =
     (if startsWith line ''data: '' then
        (case JSON_parse (drop 6 line) of
           Some (JObj data) \<Rightarrow>
             if get_prop data ''type'' = JStr ''content'' then [OnContent (get_prop data ''data'')]
             else if get_prop data ''type'' = JStr ''sources'' then [OnSources (get_prop data ''data'')]
             else []
         | _ \<Rightarrow> [])
      else [])"

text \<open>
  One turn of the \<open>while\<close> loop: \<open>text.split('\n').filter(line => line.trim())\<close>, then
  the \<open>for\<close> loop over the lines.
\<close>

definition read_chunk :: "(string \<Rightarrow> jsval option) \<Rightarrow> string \<Rightarrow> callback list" where
  "read_chunk JSON_parse text =
     concat (map (handle_line JSON_parse)
       (filter (\<lambda>line. trim line \<noteq> []) (split_str (CHR 0x0A) text)))"

text \<open>
  \<open>sendChatMessage\<close> returns the exchanges, the callbacks it invoked in order, and how
  the promise settles.
\<close>

definition sendChatMessage ::
  "(string \<Rightarrow> jsval option) \<Rightarrow> string option \<Rightarrow> 'w fetch \<Rightarrow> string \<Rightarrow> Message list \<Rightarrow> 'w
     \<Rightarrow> exchange list \<times> callback list \<times> (error + unit) \<times> 'w" where
  "sendChatMessage JSON_parse env fetch msg history w =
     (let req1 = \<lparr>req_method = POST, req_url = API_BASE_URL env @ API_VERSION @ ''/chat'',
                  req_body = ChatJson msg (slice_last 10 history)\<rparr>;
          (a1, w1) = fetch req1 w
      in case a1 of
           Inl e \<Rightarrow> ([(req1, a1)], [], Inl e, w1)
         | Inr r1 \<Rightarrow>
             (let (xs, a, w') =
                    (if status r1 = 404 then
                       (let req2 = \<lparr>req_method = POST,
                                     req_url = API_BASE_URL env @ LEGACY_API @ ''/chat'',
                                     req_body = ChatJson msg (slice_last 10 history)\<rparr>;
                            (a2, w2) = fetch req2 w1
                        in ([(req1, a1), (req2, a2)], a2, w2))
                     else ([(req1, a1)], a1, w1))
              in case a of
                   Inl e \<Rightarrow> (xs, [], Inl e, w')
                 | Inr response \<Rightarrow>
                     if \<not> ok response
                     then (xs, [], Inl (http_error response ''Chat failed''
                                          ''Failed to get response''), w')
                     else (case body response of
                             None \<Rightarrow> (xs, [], Inl (Error ''No response body''), w')
                           | Some (chunks, fin) \<Rightarrow>
                               (xs, concat (map (read_chunk JSON_parse) chunks),
                                (case fin of
                                   EndOfStream \<Rightarrow> Inr ()
                                 | ConnectionLost m \<Rightarrow> Inl (TypeError m)),
                                w'))))"

text \<open>\<open>listDocuments\<close> returns \<open>data.documents\<close> of the parsed body.\<close>

definition listDocuments ::
  "string option \<Rightarrow> 'w fetch \<Rightarrow> 'w \<Rightarrow> exchange list \<times> (error + jsval) \<times> 'w" where
  "listDocuments env fetch w =
     (let req1 = \<lparr>req_method = GET, req_url = API_BASE_URL env @ API_VERSION @ ''/documents'',
                  req_body = NoBody\<rparr>;
          (a1, w1) = fetch req1 w
      in case a1 of
           Inl e \<Rightarrow> ([(req1, a1)], Inl e, w1)
         | Inr r1 \<Rightarrow>
             (let (xs, a, w') =
                    (if status r1 = 404 then
                       (let req2 = \<lparr>req_method = GET,
                                     req_url = API_BASE_URL env @ LEGACY_API @ ''/documents'',
                                     req_body = NoBody\<rparr>;
                            (a2, w2) = fetch req2 w1
                        in ([(req1, a1), (req2, a2)], a2, w2))
                     else ([(req1, a1)], a1, w1))
              in case a of
                   Inl e \<Rightarrow> (xs, Inl e, w')
                 | Inr response \<Rightarrow>
                     if \<not> ok response
                     then (xs, Inl (http_error response ''Failed to list documents''
                                      ''Failed to list documents''), w')
                     else (case response_json response of
                             Inl e \<Rightarrow> (xs, Inl e, w')
                           | Inr data \<Rightarrow> (xs, read_prop data ''documents'', w'))))"

definition deleteDocument ::
  "string option \<Rightarrow> 'w fetch \<Rightarrow> string \<Rightarrow> 'w \<Rightarrow> exchange list \<times> (error + jsval) \<times> 'w" where
  "deleteDocument env fetch documentId w =
     (let req = \<lparr>req_method = DELETE,
                 req_url = API_BASE_URL env @ API_VERSION @ ''/documents/'' @ documentId,
                 req_body = NoBody\<rparr>;
          (a, w') = fetch req w
      in case a of
           Inl e \<Rightarrow> ([(req, a)], Inl e, w')
         | Inr response \<Rightarrow>
             if \<not> ok response
             then ([(req, a)],
                   Inl (http_error response ''Failed to delete document''
                          ''Failed to delete document''), w')
             else ([(req, a)], response_json response, w'))"

definition getStats ::
  "string option \<Rightarrow> 'w fetch \<Rightarrow> 'w \<Rightarrow> exchange list \<times> (error + jsval) \<times> 'w" where
  "getStats env fetch w =
     (let req = \<lparr>req_method = GET, req_url = API_BASE_URL env @ API_VERSION @ ''/stats'',
                 req_body = NoBody\<rparr>;
          (a, w') = fetch req w
      in case a of
           Inl e \<Rightarrow> ([(req, a)], Inl e, w')
         | Inr response \<Rightarrow>
             if \<not> ok response
             then ([(req, a)],
                   Inl (http_error response ''Failed to get stats'' ''Failed to get stats''), w')
             else ([(req, a)], response_json response, w'))"

section \<open>The chat page (\<open>app/page.tsx\<close>)\<close>

text \<open>The React state \<open>handleSubmit\<close> reads and sets.\<close>

record page_state =
  messages :: "Message list"
  input :: string
  isLoading :: bool
  error :: "string option"
  sources :: jsval

text \<open>
  The updater of the streaming callback: it appends the chunk to the last message when
  that is the assistant's. On an empty list the read of \<open>lastMessage.role\<close> would throw;
  \<open>handleSubmit\<close> has appended two messages before any callback runs, and the model
  leaves an empty list as it is.
\<close>

definition append_chunk :: "jsval \<Rightarrow> Message list \<Rightarrow> Message list" where
  "append_chunk chunk prev =
     (if prev = [] then prev
      else (let lastMessage = prev ! (length prev - 1) in
            if role lastMessage = Assistant
            then prev[length prev - 1 := lastMessage\<lparr>content := content lastMessage @ ToString chunk\<rparr>]
            else prev))"

fun run_callback :: "page_state \<Rightarrow> callback \<Rightarrow> page_state" where
  "run_callback st (OnContent chunk) = st\<lparr>messages := append_chunk chunk (messages st)\<rparr>"
| "run_callback st (OnSources newSources) = st\<lparr>sources := newSources\<rparr>"

definition handleSubmit ::
  "(string \<Rightarrow> jsval option) \<Rightarrow> string option \<Rightarrow> 'w fetch \<Rightarrow> page_state \<Rightarrow> 'w
     \<Rightarrow> exchange list \<times> page_state \<times> 'w" where
  "handleSubmit JSON_parse env fetch st w =
     (if trim (input st) = [] \<or> isLoading st then ([], st, w)
      else
        (let userMessage = \<lparr>role = User, content = trim (input st)\<rparr>;
             st1 = st\<lparr>messages := messages st @ [userMessage], input := [], isLoading := True,
                      error := None, sources := JArr []\<rparr>;
             assistantMessage = \<lparr>role = Assistant, content = []\<rparr>;
             st2 = st1\<lparr>messages := messages st1 @ [assistantMessage]\<rparr>;
             (xs, callbacks, outcome, w') =
               sendChatMessage JSON_parse env fetch (content userMessage) (messages st) w;
             st3 = foldl run_callback st2 callbacks;
             st4 = (case outcome of
                      Inl err \<Rightarrow>
                        st3\<lparr>error := Some (error_message err),
                            messages := filter (\<lambda>m. content m \<noteq> []) (messages st3)\<rparr>
                    | Inr u \<Rightarrow> st3)
         in (xs, st4\<lparr>isLoading := False\<rparr>, w')))"

section \<open>The upload widget (\<open>FileUpload\<close>)\<close>

datatype upload_status = StatusUploading | StatusSuccess | StatusError

text \<open>
  \<open>UploadedFile\<close>: \<open>name\<close>, \<open>status\<close>, \<open>message\<close> and \<open>chunks\<close>; the optional fields
  are \<open>undefined\<close> when absent.
\<close>

record UploadedFile =
  uf_name :: string
  uf_status :: upload_status
  uf_message :: jsval
  uf_chunks :: jsval

text \<open>
  \<open>processFile\<close> returns the exchanges and the list of files after its updates. The
  updater of the success branch reads \<open>result.message\<close> and \<open>result.chunks_created\<close>
  when React applies it, outside the \<open>try\<close>: on a result that is \<open>null\<close> the read
  throws and the render fails (\<open>Inl\<close>). Every error the \<open>catch\<close> sees is an instance of
  \<open>Error\<close>, so the entry shows its message.
\<close>

definition processFile ::
  "string option \<Rightarrow> 'w fetch \<Rightarrow> File \<Rightarrow> UploadedFile list \<Rightarrow> 'w
     \<Rightarrow> exchange list \<times> (error + UploadedFile list) \<times> 'w" where
  "processFile env fetch file files w =
     (if \<not> endsWith (toLowerCase (file_name file)) ''.pdf'' then
        ([], Inr (files @ [\<lparr>uf_name = file_name file, uf_status = StatusError,
                            uf_message = JStr ''Only PDF files are supported'',
                            uf_chunks = JUndefined\<rparr>]), w)
      else if file_size file > 50 * 1024 * 1024 then
        ([], Inr (files @ [\<lparr>uf_name = file_name file, uf_status = StatusError,
                            uf_message = JStr ''File size exceeds 50MB limit'',
                            uf_chunks = JUndefined\<rparr>]), w)
      else
        (let files1 = files @ [\<lparr>uf_name = file_name file, uf_status = StatusUploading,
                                uf_message = JUndefined, uf_chunks = JUndefined\<rparr>];
             (xs, outcome, w') = uploadDocument env fetch file w
         in case outcome of
              Inr result \<Rightarrow>
                (case read_prop result ''message'' of
                   Inl e \<Rightarrow> (xs, Inl e, w')
                 | Inr message \<Rightarrow>
                     (case read_prop result ''chunks_created'' of
                        Inl e \<Rightarrow> (xs, Inl e, w')
                      | Inr chunks_created \<Rightarrow>
                          (xs, Inr (map (\<lambda>f. if uf_name f = file_name file
                                             then f\<lparr>uf_status := StatusSuccess,
                                                    uf_message := message,
                                                    uf_chunks := chunks_created\<rparr>
                                             else f) files1), w')))
            | Inl err \<Rightarrow>
                (xs, Inr (map (\<lambda>f. if uf_name f = file_name file
                                   then f\<lparr>uf_status := StatusError,
                                          uf_message := JStr (error_message err)\<rparr>
                                   else f) files1), w')))"

section \<open>The interfaces of \<open>api.ts\<close>\<close>

fun is_JStr :: "jsval \<Rightarrow> bool" where
  "is_JStr (JStr s) = True"
| "is_JStr v = False"

fun is_JNum :: "jsval \<Rightarrow> bool" where
  "is_JNum (JNum n) = True"
| "is_JNum v = False"

fun is_JBool :: "jsval \<Rightarrow> bool" where
  "is_JBool (JBool b) = True"
| "is_JBool v = False"

text \<open>
  \<open>interface IngestResponse { success: boolean; document_id: string; filename: string;
  chunks_created: number; message: string }\<close>
\<close>

definition IngestResponse :: "jsobject \<Rightarrow> bool" where
  "IngestResponse obj =
     (is_JBool (get_prop obj ''success'') \<and> is_JStr (get_prop obj ''document_id'')
      \<and> is_JStr (get_prop obj ''filename'') \<and> is_JNum (get_prop obj ''chunks_created'')
      \<and> is_JStr (get_prop obj ''message''))"

section \<open>The back end, from the specification\<close>

subsection \<open>Chunker\<close>

datatype config_error = ConfigurationError

text \<open>
  Modelled from the spec: the chunker of the back end, whose code is not among the
  sources. A window of width \<open>chunk_size\<close> slides over the text, its start advancing by
  \<open>step = chunk_size - overlap\<close>; the segment that reaches the end of the text is the
  last and may be shorter.
\<close>

function windows :: "nat \<Rightarrow> nat \<Rightarrow> 'a list \<Rightarrow> 'a list list" where
  "windows chunk_size step text =
     (if step = 0 \<or> length text \<le> chunk_size then [text]
      else take chunk_size text # windows chunk_size step (drop step text))"
  by pat_completeness auto
termination
  by (relation "measure (\<lambda>(chunk_size, step, text). length text)") auto

declare windows.simps [simp del]

text \<open>
  Modelled from the spec: \<open>overlap >= size\<close> is a configuration error, rejected before
  processing; empty text produces zero segments.
\<close>

definition chunk_text :: "nat \<Rightarrow> nat \<Rightarrow> 'a list \<Rightarrow> config_error + 'a list list" where
  "chunk_text chunk_size overlap text =
     (if overlap \<ge> chunk_size then Inl ConfigurationError
      else if text = [] then Inr []
      else Inr (windows chunk_size (chunk_size - overlap) text))"

text \<open>\<open>ceil(a / b)\<close> on natural numbers.\<close>

definition ceil_div :: "nat \<Rightarrow> nat \<Rightarrow> nat" where
  "ceil_div a b = (a + b - 1) div b"

subsection \<open>Vector store\<close>

text \<open>
  Modelled from the spec: the vector store of the back end, whose code is not among the
  sources. Documents and chunks are two tables, a chunk naming the document that owns
  it. The embedding vector of a chunk plays no part in deletion and counting and is
  left out.
\<close>

record document =
  doc_id :: string
  doc_name :: string
  created_at :: nat

record chunk =
  chunk_document_id :: string
  sequence_index :: nat
  chunk_content :: string

record store =
  store_documents :: "document list"
  store_chunks :: "chunk list"

datatype store_error = NotFoundError

record DeleteResponse =
  document_id :: string
  chunks_deleted :: nat

record Stats =
  documents :: nat
  chunks :: nat

text \<open>
  Modelled from the spec: \<open>delete_document(document_id)\<close> removes the document and all
  its chunks atomically; fails with \<open>NotFoundError\<close> if the id does not exist.
\<close>

definition delete_document :: "string \<Rightarrow> store \<Rightarrow> store_error + (DeleteResponse \<times> store)" where
  "delete_document did s =
     (if did \<notin> doc_id ` set (store_documents s) then Inl NotFoundError
      else Inr (\<lparr>document_id = did,
                  chunks_deleted = length (filter (\<lambda>c. chunk_document_id c = did) (store_chunks s))\<rparr>,
                \<lparr>store_documents = filter (\<lambda>d. doc_id d \<noteq> did) (store_documents s),
                 store_chunks = filter (\<lambda>c. chunk_document_id c \<noteq> did) (store_chunks s)\<rparr>))"

text \<open>
  Modelled from the spec: \<open>stats()\<close> returns total document count and total chunk count.
\<close>

definition stats :: "store \<Rightarrow> Stats" where
  "stats s = \<lparr>documents = length (store_documents s), chunks = length (store_chunks s)\<rparr>"

text \<open>
  Modelled from the spec: the operations of the store that the client reaches, as steps
  on the store. Listing and counting read; deleting writes (a failed deletion leaves the
  store as it was).
\<close>

datatype store_op = OpStats | OpListDocuments | OpDeleteDocument string

fun is_write :: "store_op \<Rightarrow> bool" where
  "is_write OpStats = False"
| "is_write OpListDocuments = False"
| "is_write (OpDeleteDocument did) = True"

fun exec_op :: "store \<Rightarrow> store_op \<Rightarrow> store" where
  "exec_op s OpStats = s"
| "exec_op s OpListDocuments = s"
| "exec_op s (OpDeleteDocument did) =
     (case delete_document did s of Inl e \<Rightarrow> s | Inr (res, s') \<Rightarrow> s')"

text \<open>
  Modelled from the spec: the exposed stats operation as the route \<open>getStats\<close> calls. It
  answers \<open>{documents, chunks}\<close> and writes nothing.
\<close>

definition Stats_json :: "Stats \<Rightarrow> jsobject" where
  "Stats_json st = [(''documents'', JNum (int (documents st))), (''chunks'', JNum (int (chunks st)))]"

definition stats_route :: "store fetch" where
  "stats_route req s =
     (Inr \<lparr>status = 200, json = Inr (JObj (Stats_json (stats s))), body = None\<rparr>, s)"

text \<open>
  Modelled from the spec: the exposed document deletion as the route \<open>deleteDocument\<close>
  calls. It returns \<open>{document_id, chunks_deleted}\<close>, or \<open>NotFoundError\<close> as a response
  that is not ok with the error as its \<open>detail\<close>; a request for anything else finds no
  route. The spec fixes neither the status of that response nor the wording of the
  \<open>detail\<close>: the model takes 404 and \<open>Document not found\<close>. The record carries the
  \<open>success\<close> flag of the \<open>DeleteResponse\<close> interface of \<open>api.ts\<close>.
\<close>

definition DeleteResponse_json :: "DeleteResponse \<Rightarrow> jsobject" where
  "DeleteResponse_json res =
     [(''success'', JBool True), (''document_id'', JStr (document_id res)),
      (''chunks_deleted'', JNum (int (chunks_deleted res)))]"

definition delete_route :: "string option \<Rightarrow> store fetch" where
  "delete_route env req s =
     (let route = API_BASE_URL env @ API_VERSION @ ''/documents/'' in
      if req_method req = DELETE \<and> startsWith (req_url req) route then
        (case delete_document (drop (length route) (req_url req)) s of
           Inl e \<Rightarrow>
             (Inr \<lparr>status = 404, json = Inr (JObj [(''detail'', JStr ''Document not found'')]),
                   body = None\<rparr>, s)
         | Inr (res, s') \<Rightarrow>
             (Inr \<lparr>status = 200, json = Inr (JObj (DeleteResponse_json res)), body = None\<rparr>, s'))
      else (Inr \<lparr>status = 404, json = Inr (JObj [(''detail'', JStr ''Not Found'')]),
                 body = None\<rparr>, s))"

subsection \<open>Answer stream\<close>

text \<open>
  Modelled from the spec: the events the retrieval-answer pipeline of the back end emits
  (its code is not among the sources): one \<open>sources\<close> event, \<open>content\<close> events, a
  terminal \<open>done\<close>, or an \<open>error\<close> event with a message after a failure. Each is a JSON
  object with a \<open>type\<close>; the API reference shows the list of names and the fragment
  under \<open>data\<close>, and the message of an \<open>error\<close> event is put there too.
\<close>

datatype event = Sources "string list" | Content string | Done | Failed string

fun event_json :: "event \<Rightarrow> jsval" where
  "event_json (Sources names) = JObj [(''type'', JStr ''sources''), (''data'', JArr (map JStr names))]"
| "event_json (Content fragment) = JObj [(''type'', JStr ''content''), (''data'', JStr fragment)]"
| "event_json Done = JObj [(''type'', JStr ''done'')]"
| "event_json (Failed m) = JObj [(''type'', JStr ''error''), (''data'', JStr m)]"

fun callbacks_of :: "event \<Rightarrow> callback list" where
  "callbacks_of (Sources names) = [OnSources (JArr (map JStr names))]"
| "callbacks_of (Content fragment) = [OnContent (JStr fragment)]"
| "callbacks_of Done = []"
| "callbacks_of (Failed m) = []"

text \<open>
  The framing of the API reference: one event per line, \<open>data: \<close> before the JSON text
  and an empty line after it.
\<close>

definition sse :: "string \<Rightarrow> string" where
  "sse event = ''data: '' @ event @ ''\<newline>\<newline>''"

text \<open>
  A delivery in which every chunk holds whole frames: the events of each group, encoded by
  \<open>enc\<close>, arrive as one chunk.
\<close>

definition deliver :: "(event \<Rightarrow> string) \<Rightarrow> event list list \<Rightarrow> string list" where
  "deliver enc groups = map (\<lambda>g. concat (map (\<lambda>e. sse (enc e)) g)) groups"

section \<open>Sample inputs\<close>

text \<open>Concrete files, responses and servers on which the theorems below are run.\<close>

definition sample_file :: File where
  "sample_file = \<lparr>file_name = ''Report.PDF'', file_size = 1024\<rparr>"

definition sample_ingest_body :: jsobject where
  "sample_ingest_body =
     [(''success'', JBool True), (''document_id'', JStr ''d1''), (''filename'', JStr ''Report.PDF''),
      (''chunks_created'', JNum 3),
      (''message'', JStr ''Successfully ingested Report.PDF with 3 chunks'')]"

definition not_found :: response where
  "not_found =
     \<lparr>status = 404, json = Inr (JObj [(''detail'', JStr ''Not Found'')]), body = None\<rparr>"

definition server_error :: response where
  "server_error =
     \<lparr>status = 500, json = Inr (JObj [(''detail'', JStr ''Failed to process PDF'')]),
      body = None\<rparr>"

text \<open>
  Servers: one that fails every request, one that answers every request 200 with a page
  that is no JSON, one that answers 200 with the empty object, one whose error body is
  \<open>null\<close>, and no server at all.
\<close>

definition failing_server :: "unit fetch" where
  "failing_server q w = (Inr server_error, w)"

definition html_page :: response where
  "html_page = \<lparr>status = 200, json = Inl ''Unexpected token < in JSON at position 0'', body = None\<rparr>"

definition html_server :: "unit fetch" where
  "html_server q w = (Inr html_page, w)"

definition empty_object_server :: "unit fetch" where
  "empty_object_server q w = (Inr \<lparr>status = 200, json = Inr (JObj []), body = None\<rparr>, w)"

definition null_error_server :: "unit fetch" where
  "null_error_server q w = (Inr \<lparr>status = 500, json = Inr JNull, body = None\<rparr>, w)"

definition unreachable :: "unit fetch" where
  "unreachable q w = (Inl (TypeError ''Failed to fetch''), w)"

text \<open>A store holding two documents, of two chunks and of one.\<close>

definition sample_store :: store where
  "sample_store =
     \<lparr>store_documents =
        [\<lparr>doc_id = ''d1'', doc_name = ''Report.PDF'', created_at = 1\<rparr>,
         \<lparr>doc_id = ''d2'', doc_name = ''notes.pdf'', created_at = 2\<rparr>],
      store_chunks =
        [\<lparr>chunk_document_id = ''d1'', sequence_index = 0, chunk_content = ''the sky''\<rparr>,
         \<lparr>chunk_document_id = ''d1'', sequence_index = 1, chunk_content = ''sky is blue''\<rparr>,
         \<lparr>chunk_document_id = ''d2'', sequence_index = 0, chunk_content = ''notes''\<rparr>]\<rparr>"

text \<open>A file that is no PDF, and a PDF one byte over the limit.\<close>

definition text_file :: File where
  "text_file = \<lparr>file_name = ''notes.txt'', file_size = 10\<rparr>"

definition big_file :: File where
  "big_file = \<lparr>file_name = ''big.pdf'', file_size = 50 * 1024 * 1024 + 1\<rparr>"

text \<open>A page holding one earlier exchange whose answer stayed empty.\<close>

definition sample_page :: page_state where
  "sample_page =
     \<lparr>messages = [\<lparr>role = User, content = ''hi''\<rparr>, \<lparr>role = Assistant, content = []\<rparr>],
      input = ''  What is RAG? '', isLoading = False, error = None, sources = JArr []\<rparr>"

text \<open>
  The event texts of an answer, and \<open>JSON.parse\<close> on them. Every other text the samples
  hand to it is a piece of an event text cut before its closing brace, which
  \<open>JSON.parse\<close> rejects.
\<close>

definition sources_event :: string where
  \<open>sources_event = ''{"type": "sources", "data": ["doc1.pdf"]}''\<close>

definition content_event :: string where
  \<open>content_event = ''{"type": "content", "data": "Based on"}''\<close>

definition done_event :: string where
  \<open>done_event = ''{"type": "done"}''\<close>

definition error_event :: string where
  \<open>error_event = ''{"type": "error", "data": "Generation failed"}''\<close>

definition sample_parse :: "string \<Rightarrow> jsval option" where
  "sample_parse s =
     (if s = sources_event
      then Some (JObj [(''type'', JStr ''sources''), (''data'', JArr [JStr ''doc1.pdf''])])
      else if s = content_event
      then Some (JObj [(''type'', JStr ''content''), (''data'', JStr ''Based on'')])
      else if s = done_event then Some (JObj [(''type'', JStr ''done'')])
      else if s = error_event
      then Some (JObj [(''type'', JStr ''error''), (''data'', JStr ''Generation failed'')])
      else None)"

text \<open>A server that answers every request with the given stream.\<close>

definition stream_server :: "reader \<Rightarrow> unit fetch" where
  "stream_server r q w =
     (Inr \<lparr>status = 200, json = Inl ''Unexpected token d'', body = Some r\<rparr>, w)"

text \<open>
  One answer delivered twice: frame by frame, and as the same characters cut inside the
  first frame. Then an answer that fails after its first fragment.
\<close>

definition whole_frames :: "string list" where
  "whole_frames = [sse sources_event, sse content_event, sse done_event]"

definition split_head :: string where
  \<open>split_head = ''data: {"type": "sou''\<close>

definition split_tail :: string where
  \<open>split_tail =
     ''rces", "data": ["doc1.pdf"]}\<newline>\<newline>'' @ sse content_event @ sse done_event\<close>

definition split_frames :: "string list" where
  "split_frames = [split_head, split_tail]"

definition failed_answer :: "string list" where
  "failed_answer = [sse sources_event, sse content_event, sse error_event]"

text \<open>
  A server that knows the legacy routes only: it answers 404 under \<open>/api/v1\<close>, and
  under \<open>/api\<close> an answer stream for the chat, an empty list for the documents and an
  ingestion record for anything else.
\<close>

definition legacy_only :: "unit fetch" where
  "legacy_only q w =
     (if startsWith (req_url q) ''http://localhost:8000/api/v1'' then (Inr not_found, w)
      else if endsWith (req_url q) ''/chat'' then
        (Inr \<lparr>status = 200, json = Inl ''Unexpected token d'',
              body = Some (whole_frames, EndOfStream)\<rparr>, w)
      else if endsWith (req_url q) ''/documents'' then
        (Inr \<lparr>status = 200, json = Inr (JObj [(''documents'', JArr []), (''total'', JNum 0)]),
              body = None\<rparr>, w)
      else (Inr \<lparr>status = 200, json = Inr (JObj sample_ingest_body), body = None\<rparr>, w))"

section \<open>The client operations: exchanges and outcomes\<close>

lemma slice_last_suffix: "suffix (slice_last n xs) xs"
  by (simp add: slice_last_def suffix_drop)

lemma slice_last_length: "length (slice_last n xs) = min n (length xs)"
  by (simp add: slice_last_def)

text \<open>
  Each operation, written flat: the two requests it may send, the answers of \<open>fetch\<close>
  to them, and how the answer that decides the call settles it.
\<close>

lemma uploadDocument_run:
  "uploadDocument env fetch file w =
     (let req1 = \<lparr>req_method = POST, req_url = API_BASE_URL env @ API_VERSION @ ''/ingest'',
                  req_body = FormData file\<rparr>;
          req2 = \<lparr>req_method = POST, req_url = API_BASE_URL env @ LEGACY_API @ ''/ingest'',
                  req_body = FormData file\<rparr>;
          (a1, w1) = fetch req1 w;
          (a2, w2) = fetch req2 w1;
          settle = (\<lambda>a. case a of
                      Inl e \<Rightarrow> Inl e
                    | Inr r \<Rightarrow> if \<not> ok r
                              then Inl (http_error r ''Upload failed'' ''Failed to upload document'')
                              else response_json r)
      in case a1 of
           Inl e \<Rightarrow> ([(req1, a1)], Inl e, w1)
         | Inr r1 \<Rightarrow>
             if status r1 = 404 then ([(req1, a1), (req2, a2)], settle a2, w2)
             else ([(req1, a1)], settle a1, w1))"
  by (auto simp: uploadDocument_def Let_def split: prod.splits sum.splits)

lemma listDocuments_run:
  "listDocuments env fetch w =
     (let req1 = \<lparr>req_method = GET, req_url = API_BASE_URL env @ API_VERSION @ ''/documents'',
                  req_body = NoBody\<rparr>;
          req2 = \<lparr>req_method = GET, req_url = API_BASE_URL env @ LEGACY_API @ ''/documents'',
                  req_body = NoBody\<rparr>;
          (a1, w1) = fetch req1 w;
          (a2, w2) = fetch req2 w1;
          settle = (\<lambda>a. case a of
                      Inl e \<Rightarrow> Inl e
                    | Inr r \<Rightarrow> if \<not> ok r
                              then Inl (http_error r ''Failed to list documents''
                                          ''Failed to list documents'')
                              else (case response_json r of
                                      Inl e \<Rightarrow> Inl e
                                    | Inr data \<Rightarrow> read_prop data ''documents''))
      in case a1 of
           Inl e \<Rightarrow> ([(req1, a1)], Inl e, w1)
         | Inr r1 \<Rightarrow>
             if status r1 = 404 then ([(req1, a1), (req2, a2)], settle a2, w2)
             else ([(req1, a1)], settle a1, w1))"
  by (auto simp: listDocuments_def Let_def split: prod.splits sum.splits)

lemma sendChatMessage_run:
  "sendChatMessage JSON_parse env fetch msg history w =
     (let req1 = \<lparr>req_method = POST, req_url = API_BASE_URL env @ API_VERSION @ ''/chat'',
                  req_body = ChatJson msg (slice_last 10 history)\<rparr>;
          req2 = \<lparr>req_method = POST, req_url = API_BASE_URL env @ LEGACY_API @ ''/chat'',
                  req_body = ChatJson msg (slice_last 10 history)\<rparr>;
          (a1, w1) = fetch req1 w;
          (a2, w2) = fetch req2 w1;
          settle = (\<lambda>a. case a of
                      Inl e \<Rightarrow> ([], Inl e)
                    | Inr r \<Rightarrow>
                        if \<not> ok r
                        then ([], Inl (http_error r ''Chat failed'' ''Failed to get response''))
                        else (case body r of
                                None \<Rightarrow> ([], Inl (Error ''No response body''))
                              | Some (cs, fin) \<Rightarrow>
                                  (concat (map (read_chunk JSON_parse) cs),
                                   (case fin of
                                      EndOfStream \<Rightarrow> Inr ()
                                    | ConnectionLost m \<Rightarrow> Inl (TypeError m)))))
      in case a1 of
           Inl e \<Rightarrow> ([(req1, a1)], [], Inl e, w1)
         | Inr r1 \<Rightarrow>
             if status r1 = 404 then ([(req1, a1), (req2, a2)], fst (settle a2), snd (settle a2), w2)
             else ([(req1, a1)], fst (settle a1), snd (settle a1), w1))"
  by (auto simp: sendChatMessage_def Let_def split: prod.splits sum.splits option.splits)

lemma deleteDocument_run:
  "deleteDocument env fetch documentId w =
     (let req = \<lparr>req_method = DELETE,
                 req_url = API_BASE_URL env @ API_VERSION @ ''/documents/'' @ documentId,
                 req_body = NoBody\<rparr>;
          (a, w') = fetch req w
      in ([(req, a)],
          (case a of
             Inl e \<Rightarrow> Inl e
           | Inr r \<Rightarrow> if \<not> ok r
                     then Inl (http_error r ''Failed to delete document''
                                 ''Failed to delete document'')
                     else response_json r), w'))"
  by (auto simp: deleteDocument_def Let_def split: prod.splits sum.splits)

lemma getStats_run:
  "getStats env fetch w =
     (let req = \<lparr>req_method = GET, req_url = API_BASE_URL env @ API_VERSION @ ''/stats'',
                 req_body = NoBody\<rparr>;
          (a, w') = fetch req w
      in ([(req, a)],
          (case a of
             Inl e \<Rightarrow> Inl e
           | Inr r \<Rightarrow> if \<not> ok r
                     then Inl (http_error r ''Failed to get stats'' ''Failed to get stats'')
                     else response_json r), w'))"
  by (auto simp: getStats_def Let_def split: prod.splits sum.splits)

text \<open>
  What is thrown on a response that is not ok: the \<open>detail\<close> of the body, the first
  fallback when the body does not parse, the second when there is no \<open>detail\<close>.
\<close>

lemma http_error_message:
  "http_error r d1 d2 =
     (case json r of
        Inl m \<Rightarrow> Error (if d1 = [] then d2 else d1)
      | Inr v \<Rightarrow>
          (case read_prop v ''detail'' of
             Inl e \<Rightarrow> e
           | Inr detail \<Rightarrow> Error (if truthy detail then ToString detail else d2)))"
  by (auto simp: http_error_def Let_def read_prop_def get_prop_def split: sum.splits)

lemma not_ok_404: "status r = 404 \<Longrightarrow> \<not> ok r"
  by (simp add: ok_def)

lemma not_ok_settles:
  "\<not> ok r \<Longrightarrow>
     Inl (http_error r d1 d2) =
       Inl (case json r of
              Inl m \<Rightarrow> Error (if d1 = [] then d2 else d1)
            | Inr v \<Rightarrow>
                (case read_prop v ''detail'' of
                   Inl e \<Rightarrow> e
                 | Inr detail \<Rightarrow> Error (if truthy detail then ToString detail else d2)))"
  by (simp add: http_error_message)

text \<open>
  Which routes each operation tries. The exchanges are the requests the operation handed
  to \<open>fetch\<close>, each with the answer \<open>fetch\<close> gave, and the world is the one \<open>fetch\<close> left.
\<close>

lemma uploadDocument_fallback:
  "(let req1 = \<lparr>req_method = POST, req_url = API_BASE_URL env @ API_VERSION @ ''/ingest'',
                 req_body = FormData file\<rparr>;
        req2 = \<lparr>req_method = POST, req_url = API_BASE_URL env @ LEGACY_API @ ''/ingest'',
                 req_body = FormData file\<rparr>;
        (a1, w1) = fetch req1 w;
        (a2, w2) = fetch req2 w1;
        (xs, outcome, w') = uploadDocument env fetch file w
    in case a1 of
         Inl e \<Rightarrow> xs = [(req1, a1)] \<and> w' = w1 \<and> outcome = Inl e
       | Inr r1 \<Rightarrow>
           (status r1 = 404 \<longrightarrow> xs = [(req1, a1), (req2, a2)] \<and> w' = w2)
         \<and> (status r1 \<noteq> 404 \<longrightarrow> xs = [(req1, a1)] \<and> w' = w1)
         \<and> (status r1 \<noteq> 404 \<and> \<not> ok r1 \<longrightarrow>
              outcome = Inl (http_error r1 ''Upload failed'' ''Failed to upload document'')))"
  by (simp add: uploadDocument_run Let_def split: prod.splits sum.splits)

lemma sendChatMessage_fallback:
  "(let req1 = \<lparr>req_method = POST, req_url = API_BASE_URL env @ API_VERSION @ ''/chat'',
                 req_body = ChatJson msg (slice_last 10 history)\<rparr>;
        req2 = \<lparr>req_method = POST, req_url = API_BASE_URL env @ LEGACY_API @ ''/chat'',
                 req_body = ChatJson msg (slice_last 10 history)\<rparr>;
        (a1, w1) = fetch req1 w;
        (a2, w2) = fetch req2 w1;
        (xs, callbacks, outcome, w') = sendChatMessage JSON_parse env fetch msg history w
    in case a1 of
         Inl e \<Rightarrow> xs = [(req1, a1)] \<and> w' = w1 \<and> outcome = Inl e
       | Inr r1 \<Rightarrow>
           (status r1 = 404 \<longrightarrow> xs = [(req1, a1), (req2, a2)] \<and> w' = w2)
         \<and> (status r1 \<noteq> 404 \<longrightarrow> xs = [(req1, a1)] \<and> w' = w1)
         \<and> (status r1 \<noteq> 404 \<and> \<not> ok r1 \<longrightarrow>
              outcome = Inl (http_error r1 ''Chat failed'' ''Failed to get response'')))"
  by (simp add: sendChatMessage_run Let_def split: prod.splits sum.splits)

lemma listDocuments_fallback:
  "(let req1 = \<lparr>req_method = GET, req_url = API_BASE_URL env @ API_VERSION @ ''/documents'',
                 req_body = NoBody\<rparr>;
        req2 = \<lparr>req_method = GET, req_url = API_BASE_URL env @ LEGACY_API @ ''/documents'',
                 req_body = NoBody\<rparr>;
        (a1, w1) = fetch req1 w;
        (a2, w2) = fetch req2 w1;
        (xs, outcome, w') = listDocuments env fetch w
    in case a1 of
         Inl e \<Rightarrow> xs = [(req1, a1)] \<and> w' = w1 \<and> outcome = Inl e
       | Inr r1 \<Rightarrow>
           (status r1 = 404 \<longrightarrow> xs = [(req1, a1), (req2, a2)] \<and> w' = w2)
         \<and> (status r1 \<noteq> 404 \<longrightarrow> xs = [(req1, a1)] \<and> w' = w1)
         \<and> (status r1 \<noteq> 404 \<and> \<not> ok r1 \<longrightarrow>
              outcome = Inl (http_error r1 ''Failed to list documents''
                               ''Failed to list documents'')))"
  by (simp add: listDocuments_run Let_def split: prod.splits sum.splits)

lemma deleteDocument_no_fallback:
  "(let req = \<lparr>req_method = DELETE,
                req_url = API_BASE_URL env @ API_VERSION @ ''/documents/'' @ documentId,
                req_body = NoBody\<rparr>;
        (a, w1) = fetch req w;
        (xs, outcome, w') = deleteDocument env fetch documentId w
    in xs = [(req, a)] \<and> w' = w1
       \<and> (case a of
             Inl e \<Rightarrow> outcome = Inl e
           | Inr r \<Rightarrow>
               (status r = 404 \<longrightarrow>
                outcome = Inl (http_error r ''Failed to delete document''
                                 ''Failed to delete document''))))"
  by (simp add: deleteDocument_run Let_def not_ok_404 split: prod.splits sum.splits)

lemma getStats_no_fallback:
  "(let req = \<lparr>req_method = GET, req_url = API_BASE_URL env @ API_VERSION @ ''/stats'',
                req_body = NoBody\<rparr>;
        (a, w1) = fetch req w;
        (xs, outcome, w') = getStats env fetch w
    in xs = [(req, a)] \<and> w' = w1
       \<and> (case a of
             Inl e \<Rightarrow> outcome = Inl e
           | Inr r \<Rightarrow>
               (status r = 404 \<longrightarrow>
                outcome = Inl (http_error r ''Failed to get stats'' ''Failed to get stats''))))"
  by (simp add: getStats_run Let_def not_ok_404 split: prod.splits sum.splits)

text \<open>
  How the answer that decides it settles \<open>uploadDocument\<close> and \<open>deleteDocument\<close>.
\<close>

lemma IngestResponse_fields:
  "IngestResponse v \<Longrightarrow>
     \<exists>i f n m. get_prop v ''document_id'' = JStr i \<and> get_prop v ''filename'' = JStr f
       \<and> get_prop v ''chunks_created'' = JNum n \<and> get_prop v ''message'' = JStr m"
proof -
  have s: "is_JStr x \<Longrightarrow> \<exists>t. x = JStr t" for x by (cases x) simp_all
  have n: "is_JNum x \<Longrightarrow> \<exists>t. x = JNum t" for x by (cases x) simp_all
  assume "IngestResponse v"
  then show ?thesis
    unfolding IngestResponse_def by (metis s n)
qed

lemma resolves_only_ok:
  fixes a :: "error + response"
  assumes "outcome = (case a of
                        Inl e \<Rightarrow> Inl e
                      | Inr r \<Rightarrow> if \<not> ok r then Inl (http_error r d1 d2) else response_json r)"
  shows "\<forall>v. outcome = Inr v \<longrightarrow> (\<exists>r. a = Inr r \<and> ok r \<and> json r = Inr v)"
  using assms by (auto simp: response_json_def split: sum.splits if_splits)

lemma resolves_IngestResponse:
  assumes "outcome = response_json r"
  shows "\<forall>obj. ok r \<and> json r = Inr (JObj obj) \<and> IngestResponse obj \<longrightarrow>
                 outcome = Inr (JObj obj)
                 \<and> (\<exists>i f n m. get_prop obj ''document_id'' = JStr i
                       \<and> get_prop obj ''filename'' = JStr f
                       \<and> get_prop obj ''chunks_created'' = JNum n
                       \<and> get_prop obj ''message'' = JStr m)"
  using assms IngestResponse_fields by (simp add: response_json_def)

lemma upload_settle:
  fixes a :: "error + response"
  assumes out: "outcome = (case a of
                      Inl e \<Rightarrow> Inl e
                    | Inr r \<Rightarrow> if \<not> ok r
                              then Inl (http_error r ''Upload failed'' ''Failed to upload document'')
                              else response_json r)"
  shows "(case a of
          Inl e \<Rightarrow> outcome = Inl e
        | Inr r \<Rightarrow>
            (ok r \<longrightarrow>
               outcome = (case json r of Inl m \<Rightarrow> Inl (SyntaxError m) | Inr v \<Rightarrow> Inr v))
          \<and> (\<not> ok r \<longrightarrow>
               outcome =
                 Inl (case json r of
                        Inl m \<Rightarrow> Error ''Upload failed''
                      | Inr v \<Rightarrow>
                          (case read_prop v ''detail'' of
                             Inl e \<Rightarrow> e
                           | Inr detail \<Rightarrow>
                               Error (if truthy detail then ToString detail
                                      else ''Failed to upload document''))))
          \<and> (\<forall>obj. ok r \<and> json r = Inr (JObj obj) \<and> IngestResponse obj \<longrightarrow>
                 outcome = Inr (JObj obj)
                 \<and> (\<exists>i f n m. get_prop obj ''document_id'' = JStr i
                       \<and> get_prop obj ''filename'' = JStr f
                       \<and> get_prop obj ''chunks_created'' = JNum n
                       \<and> get_prop obj ''message'' = JStr m)))
      \<and> (\<forall>v. outcome = Inr v \<longrightarrow> (\<exists>r. a = Inr r \<and> ok r \<and> json r = Inr v))"
proof (rule conjI)
  show "\<forall>v. outcome = Inr v \<longrightarrow> (\<exists>r. a = Inr r \<and> ok r \<and> json r = Inr v)"
    using out by (rule resolves_only_ok)
  show "case a of
          Inl e \<Rightarrow> outcome = Inl e
        | Inr r \<Rightarrow>
            (ok r \<longrightarrow>
               outcome = (case json r of Inl m \<Rightarrow> Inl (SyntaxError m) | Inr v \<Rightarrow> Inr v))
          \<and> (\<not> ok r \<longrightarrow>
               outcome =
                 Inl (case json r of
                        Inl m \<Rightarrow> Error ''Upload failed''
                      | Inr v \<Rightarrow>
                          (case read_prop v ''detail'' of
                             Inl e \<Rightarrow> e
                           | Inr detail \<Rightarrow>
                               Error (if truthy detail then ToString detail
                                      else ''Failed to upload document''))))
          \<and> (\<forall>obj. ok r \<and> json r = Inr (JObj obj) \<and> IngestResponse obj \<longrightarrow>
                 outcome = Inr (JObj obj)
                 \<and> (\<exists>i f n m. get_prop obj ''document_id'' = JStr i
                       \<and> get_prop obj ''filename'' = JStr f
                       \<and> get_prop obj ''chunks_created'' = JNum n
                       \<and> get_prop obj ''message'' = JStr m))"
  proof (cases a)
    case (Inl e)
    with out show ?thesis by simp
  next
    case (Inr r)
    show ?thesis
    proof (cases "ok r")
      case True
      with Inr out have o: "outcome = response_json r" by simp
      from resolves_IngestResponse [OF o] o True Inr show ?thesis
        by (simp add: response_json_def)
    next
      case False
      with Inr out have "outcome = Inl (http_error r ''Upload failed'' ''Failed to upload document'')"
        by simp
      with not_ok_settles [OF False, of "''Upload failed''" "''Failed to upload document''"]
      show ?thesis using Inr False by simp
    qed
  qed
qed

lemma delete_settle:
  fixes a :: "error + response"
  assumes out: "outcome = (case a of
                      Inl e \<Rightarrow> Inl e
                    | Inr r \<Rightarrow> if \<not> ok r
                              then Inl (http_error r ''Failed to delete document''
                                          ''Failed to delete document'')
                              else response_json r)"
  shows "(case a of
            Inl e \<Rightarrow> outcome = Inl e
          | Inr r \<Rightarrow>
              (\<not> ok r \<longrightarrow>
                 outcome =
                   Inl (case json r of
                          Inl m \<Rightarrow> Error ''Failed to delete document''
                        | Inr v \<Rightarrow>
                            (case read_prop v ''detail'' of
                               Inl e \<Rightarrow> e
                             | Inr detail \<Rightarrow>
                                 Error (if truthy detail then ToString detail
                                        else ''Failed to delete document''))))
            \<and> (ok r \<longrightarrow>
                 outcome = (case json r of Inl m \<Rightarrow> Inl (SyntaxError m) | Inr v \<Rightarrow> Inr v)))
       \<and> ((\<exists>v. outcome = Inr v) \<longleftrightarrow> (\<exists>r v. a = Inr r \<and> ok r \<and> json r = Inr v))"
proof (cases a)
  case (Inl e)
  with out show ?thesis by simp
next
  case (Inr r)
  show ?thesis
  proof (cases "ok r")
    case True
    with Inr out have "outcome = response_json r" by simp
    with True Inr show ?thesis
      by (cases "json r") (simp_all add: response_json_def)
  next
    case False
    with Inr out have "outcome = Inl (http_error r ''Failed to delete document''
        ''Failed to delete document'')"
      by simp
    with not_ok_settles [OF False, of "''Failed to delete document''" "''Failed to delete document''"]
    show ?thesis using Inr False by simp
  qed
qed

lemma deleteDocument_settles:
  "(let req = \<lparr>req_method = DELETE,
                req_url = API_BASE_URL env @ API_VERSION @ ''/documents/'' @ documentId,
                req_body = NoBody\<rparr>;
        (a, w1) = fetch req w;
        (xs, outcome, w') = deleteDocument env fetch documentId w
    in xs = [(req, a)] \<and> w' = w1
       \<and> (case a of
            Inl e \<Rightarrow> outcome = Inl e
          | Inr r \<Rightarrow>
              (\<not> ok r \<longrightarrow>
                 outcome =
                   Inl (case json r of
                          Inl m \<Rightarrow> Error ''Failed to delete document''
                        | Inr v \<Rightarrow>
                            (case read_prop v ''detail'' of
                               Inl e \<Rightarrow> e
                             | Inr detail \<Rightarrow>
                                 Error (if truthy detail then ToString detail
                                        else ''Failed to delete document''))))
            \<and> (ok r \<longrightarrow>
                 outcome = (case json r of Inl m \<Rightarrow> Inl (SyntaxError m) | Inr v \<Rightarrow> Inr v)))
       \<and> ((\<exists>v. outcome = Inr v) \<longleftrightarrow> (\<exists>r v. a = Inr r \<and> ok r \<and> json r = Inr v)))"
proof -
  define req where "req = \<lparr>req_method = DELETE,
                req_url = API_BASE_URL env @ API_VERSION @ ''/documents/'' @ documentId,
                req_body = NoBody\<rparr>"
  obtain a w1 where f: "fetch req w = (a, w1)" by (cases "fetch req w") auto
  define outcome where "outcome = (case a of
                      Inl e \<Rightarrow> Inl e
                    | Inr r \<Rightarrow> if \<not> ok r
                              then Inl (http_error r ''Failed to delete document''
                                          ''Failed to delete document'')
                              else response_json r)"
  have run: "deleteDocument env fetch documentId w = ([(req, a)], outcome, w1)"
    using f unfolding deleteDocument_run req_def outcome_def by (simp add: Let_def)
  show ?thesis
    unfolding Let_def req_def [symmetric] f run prod.case
    using delete_settle [OF outcome_def] by simp
qed

text \<open>
  The sample servers at work.
\<close>

lemma sample_urls:
  "API_BASE_URL None @ API_VERSION @ p = ''http://localhost:8000/api/v1'' @ p"
  "API_BASE_URL None @ LEGACY_API @ p = ''http://localhost:8000/api'' @ p"
  by (simp_all add: API_BASE_URL_def DEFAULT_API_URL_def API_VERSION_def LEGACY_API_def)

lemma legacy_only_routes:
  "legacy_only \<lparr>req_method = m, req_url = ''http://localhost:8000/api/v1'' @ p, req_body = b\<rparr> w
     = (Inr not_found, w)"
  "legacy_only \<lparr>req_method = m, req_url = ''http://localhost:8000/api/chat'', req_body = b\<rparr> w
     = (Inr \<lparr>status = 200, json = Inl ''Unexpected token d'',
              body = Some (whole_frames, EndOfStream)\<rparr>, w)"
  "legacy_only \<lparr>req_method = m, req_url = ''http://localhost:8000/api/documents'', req_body = b\<rparr> w
     = (Inr \<lparr>status = 200, json = Inr (JObj [(''documents'', JArr []), (''total'', JNum 0)]),
              body = None\<rparr>, w)"
  "legacy_only \<lparr>req_method = m, req_url = ''http://localhost:8000/api/ingest'', req_body = b\<rparr> w
     = (Inr \<lparr>status = 200, json = Inr (JObj sample_ingest_body), body = None\<rparr>, w)"
  by (simp_all add: legacy_only_def startsWith_def endsWith_def)

lemma status_not_found [simp]: "status not_found = 404"
  by (simp add: not_found_def)

lemma http_error_samples:
  "http_error not_found d1 d2 = Error ''Not Found''"
  "http_error server_error d1 d2 = Error ''Failed to process PDF''"
  by (simp_all add: http_error_message not_found_def server_error_def read_prop_def get_prop_def)

lemma not_ok_server_error [simp]: "\<not> ok server_error" "status server_error = 500"
  by (simp_all add: server_error_def ok_def)

lemma sample_ingest_fields:
  "IngestResponse sample_ingest_body"
  "get_prop sample_ingest_body ''document_id'' = JStr ''d1''"
  "get_prop sample_ingest_body ''chunks_created'' = JNum 3"
  "get_prop sample_ingest_body ''message'' = JStr ''Successfully ingested Report.PDF with 3 chunks''"
  by (simp_all add: IngestResponse_def sample_ingest_body_def get_prop_def)

lemma ok_html_page [simp]: "ok html_page" "json html_page = Inl ''Unexpected token < in JSON at position 0''"
  by (simp_all add: html_page_def ok_def)

lemma upload_html_server:
  "uploadDocument None html_server sample_file () =
     ([(\<lparr>req_method = POST, req_url = ''http://localhost:8000/api/v1/ingest'',
          req_body = FormData sample_file\<rparr>, Inr html_page)],
      Inl (SyntaxError ''Unexpected token < in JSON at position 0''), ())"
  by (simp add: uploadDocument_run sample_urls html_server_def Let_def response_json_def)
     (simp add: html_page_def)

lemma upload_empty_object_server:
  "uploadDocument None empty_object_server sample_file () =
     ([(\<lparr>req_method = POST, req_url = ''http://localhost:8000/api/v1/ingest'',
          req_body = FormData sample_file\<rparr>,
        Inr \<lparr>status = 200, json = Inr (JObj []), body = None\<rparr>)],
      Inr (JObj []), ())"
  by (simp add: uploadDocument_run sample_urls empty_object_server_def Let_def response_json_def
      ok_def)

lemma upload_unreachable:
  "uploadDocument None unreachable sample_file () =
     ([(\<lparr>req_method = POST, req_url = ''http://localhost:8000/api/v1/ingest'',
          req_body = FormData sample_file\<rparr>, Inl (TypeError ''Failed to fetch''))],
      Inl (TypeError ''Failed to fetch''), ())"
  by (simp add: uploadDocument_run sample_urls unreachable_def Let_def)

lemma upload_null_error_server:
  "uploadDocument None null_error_server sample_file () =
     ([(\<lparr>req_method = POST, req_url = ''http://localhost:8000/api/v1/ingest'',
          req_body = FormData sample_file\<rparr>,
        Inr \<lparr>status = 500, json = Inr JNull, body = None\<rparr>)],
      Inl (TypeError (''Cannot read properties of null (reading '' @ [CHR 0x27] @ ''detail''
                      @ [CHR 0x27] @ '')'')), ())"
  by (simp add: uploadDocument_run sample_urls null_error_server_def Let_def ok_def
      http_error_message read_prop_def)

lemma delete_html_server:
  "deleteDocument None html_server ''d1'' () =
     ([(\<lparr>req_method = DELETE, req_url = ''http://localhost:8000/api/v1/documents/d1'',
          req_body = NoBody\<rparr>, Inr html_page)],
      Inl (SyntaxError ''Unexpected token < in JSON at position 0''), ())"
  by (simp add: deleteDocument_run sample_urls html_server_def Let_def response_json_def)

lemma delete_unreachable:
  "deleteDocument None unreachable ''d1'' () =
     ([(\<lparr>req_method = DELETE, req_url = ''http://localhost:8000/api/v1/documents/d1'',
          req_body = NoBody\<rparr>, Inl (TypeError ''Failed to fetch''))],
      Inl (TypeError ''Failed to fetch''), ())"
  by (simp add: deleteDocument_run sample_urls unreachable_def Let_def)

lemma send_failing_server:
  "sendChatMessage JSON_parse None failing_server msg history () =
     ([(\<lparr>req_method = POST, req_url = ''http://localhost:8000/api/v1/chat'',
          req_body = ChatJson msg (slice_last 10 history)\<rparr>, Inr server_error)],
      [], Inl (Error ''Failed to process PDF''), ())"
  by (simp add: sendChatMessage_run sample_urls failing_server_def http_error_samples Let_def)

section \<open>Claims about the client\<close>

text \<open>
  Claim C1. Every request \<open>sendChatMessage\<close> sends, the first to the v1 route and the
  second, when there is one, to the legacy route, carries the same body: the message and
  \<open>history.slice(-10)\<close>. That list is a suffix of the history (its last turns, in their
  order) and holds ten turns, or the whole history when that is shorter.
\<close>

theorem sendChatMessage_history_cap:
  "(let xs = fst (sendChatMessage JSON_parse env fetch msg history w);
        sent = ChatJson msg (slice_last 10 history)
    in (map (req_body \<circ> fst) xs = [sent] \<or> map (req_body \<circ> fst) xs = [sent, sent]))
   \<and> suffix (slice_last 10 history) history
   \<and> length (slice_last 10 history) = min 10 (length history)"
  by (simp add: sendChatMessage_run Let_def slice_last_suffix slice_last_length
      split: prod.splits sum.splits)

text \<open>
  Claim C5. How \<open>uploadDocument\<close> settles, read off the answer of \<open>fetch\<close> that
  decides it: the answer of the v1 route, or that of the legacy route when the v1 route
  answered 404. When \<open>fetch\<close> rejected, the call rejects with the same error. On a
  response that is not ok it rejects with an \<open>Error\<close> whose message is the \<open>detail\<close> of
  the body, \<open>Upload failed\<close> when the body does not parse and
  \<open>Failed to upload document\<close> when the body has no \<open>detail\<close>; on a body that is
  \<open>null\<close> the read of \<open>detail\<close> throws a \<open>TypeError\<close> instead. On an ok response it
  settles as \<open>response.json()\<close> does: it rejects with a \<open>SyntaxError\<close> when the body
  does not parse and resolves with the parsed body otherwise, whatever JSON value that
  is; when the body is an \<open>IngestResponse\<close>, that is a record holding \<open>document_id\<close>,
  \<open>filename\<close>, \<open>chunks_created\<close> and \<open>message\<close>. The call resolves with nothing but
  the parsed body of an ok response.
\<close>

theorem uploadDocument_settles:
  "(let req1 = \<lparr>req_method = POST, req_url = API_BASE_URL env @ API_VERSION @ ''/ingest'',
                 req_body = FormData file\<rparr>;
        req2 = \<lparr>req_method = POST, req_url = API_BASE_URL env @ LEGACY_API @ ''/ingest'',
                 req_body = FormData file\<rparr>;
        (a1, w1) = fetch req1 w;
        (a2, w2) = fetch req2 w1;
        a = (case a1 of Inl e \<Rightarrow> a1 | Inr r1 \<Rightarrow> if status r1 = 404 then a2 else a1);
        outcome = fst (snd (uploadDocument env fetch file w))
    in (case a of
          Inl e \<Rightarrow> outcome = Inl e
        | Inr r \<Rightarrow>
            (ok r \<longrightarrow>
               outcome = (case json r of Inl m \<Rightarrow> Inl (SyntaxError m) | Inr v \<Rightarrow> Inr v))
          \<and> (\<not> ok r \<longrightarrow>
               outcome =
                 Inl (case json r of
                        Inl m \<Rightarrow> Error ''Upload failed''
                      | Inr v \<Rightarrow>
                          (case read_prop v ''detail'' of
                             Inl e \<Rightarrow> e
                           | Inr detail \<Rightarrow>
                               Error (if truthy detail then ToString detail
                                      else ''Failed to upload document''))))
          \<and> (\<forall>obj. ok r \<and> json r = Inr (JObj obj) \<and> IngestResponse obj \<longrightarrow>
                 outcome = Inr (JObj obj)
                 \<and> (\<exists>i f n m. get_prop obj ''document_id'' = JStr i
                       \<and> get_prop obj ''filename'' = JStr f
                       \<and> get_prop obj ''chunks_created'' = JNum n
                       \<and> get_prop obj ''message'' = JStr m)))
      \<and> (\<forall>v. outcome = Inr v \<longrightarrow> (\<exists>r. a = Inr r \<and> ok r \<and> json r = Inr v)))"
proof -
  define req1 where "req1 = \<lparr>req_method = POST, req_url = API_BASE_URL env @ API_VERSION @ ''/ingest'',
                 req_body = FormData file\<rparr>"
  define req2 where "req2 = \<lparr>req_method = POST, req_url = API_BASE_URL env @ LEGACY_API @ ''/ingest'',
                 req_body = FormData file\<rparr>"
  obtain a1 w1 where f1: "fetch req1 w = (a1, w1)" by (cases "fetch req1 w") auto
  obtain a2 w2 where f2: "fetch req2 w1 = (a2, w2)" by (cases "fetch req2 w1") auto
  define a where "a = (case a1 of Inl e \<Rightarrow> a1 | Inr r1 \<Rightarrow> if status r1 = 404 then a2 else a1)"
  define outcome where "outcome = fst (snd (uploadDocument env fetch file w))"
  have run: "uploadDocument env fetch file w =
     (case a1 of
           Inl e \<Rightarrow> ([(req1, a1)], Inl e, w1)
         | Inr r1 \<Rightarrow>
             if status r1 = 404
             then ([(req1, a1), (req2, a2)],
                   (case a2 of
                      Inl e \<Rightarrow> Inl e
                    | Inr r \<Rightarrow> if \<not> ok r
                              then Inl (http_error r ''Upload failed'' ''Failed to upload document'')
                              else response_json r), w2)
             else ([(req1, a1)],
                   (case a1 of
                      Inl e \<Rightarrow> Inl e
                    | Inr r \<Rightarrow> if \<not> ok r
                              then Inl (http_error r ''Upload failed'' ''Failed to upload document'')
                              else response_json r), w1))"
    using f1 f2 unfolding uploadDocument_run req1_def req2_def by (simp add: Let_def)
  have "outcome = (case a of
                      Inl e \<Rightarrow> Inl e
                    | Inr r \<Rightarrow> if \<not> ok r
                              then Inl (http_error r ''Upload failed'' ''Failed to upload document'')
                              else response_json r)"
    unfolding outcome_def a_def run by (cases a1) simp_all
  from upload_settle [OF this] have core: "(case a of
          Inl e \<Rightarrow> outcome = Inl e
        | Inr r \<Rightarrow>
            (ok r \<longrightarrow>
               outcome = (case json r of Inl m \<Rightarrow> Inl (SyntaxError m) | Inr v \<Rightarrow> Inr v))
          \<and> (\<not> ok r \<longrightarrow>
               outcome =
                 Inl (case json r of
                        Inl m \<Rightarrow> Error ''Upload failed''
                      | Inr v \<Rightarrow>
                          (case read_prop v ''detail'' of
                             Inl e \<Rightarrow> e
                           | Inr detail \<Rightarrow>
                               Error (if truthy detail then ToString detail
                                      else ''Failed to upload document''))))
          \<and> (\<forall>obj. ok r \<and> json r = Inr (JObj obj) \<and> IngestResponse obj \<longrightarrow>
                 outcome = Inr (JObj obj)
                 \<and> (\<exists>i f n m. get_prop obj ''document_id'' = JStr i
                       \<and> get_prop obj ''filename'' = JStr f
                       \<and> get_prop obj ''chunks_created'' = JNum n
                       \<and> get_prop obj ''message'' = JStr m)))
      \<and> (\<forall>v. outcome = Inr v \<longrightarrow> (\<exists>r. a = Inr r \<and> ok r \<and> json r = Inr v))" .
  show ?thesis
    unfolding Let_def req1_def [symmetric] req2_def [symmetric] f1 prod.case f2
      a_def [symmetric] outcome_def [symmetric]
    by (rule core)
qed

text \<open>
  The claim has every call either resolve with the record or reject with the server's
  \<open>detail\<close>. Four runs in which it does neither: a server that answers 200 with
  \<open>{}\<close>, where the call resolves with an object that has no \<open>document_id\<close>; a server
  that answers 200 with a page that is no JSON, where the call rejects with the parser's
  \<open>SyntaxError\<close> though the response is ok; no server at all, where it rejects with the
  \<open>TypeError\<close> of \<open>fetch\<close>; and a 500 whose body is \<open>null\<close>, where it rejects with
  the \<open>TypeError\<close> of the read of \<open>detail\<close>.
\<close>

theorem uploadDocument_settles_counterexample:
  "uploadDocument None empty_object_server sample_file () =
     ([(\<lparr>req_method = POST, req_url = ''http://localhost:8000/api/v1/ingest'',
          req_body = FormData sample_file\<rparr>,
        Inr \<lparr>status = 200, json = Inr (JObj []), body = None\<rparr>)],
      Inr (JObj []), ())
   \<and> get_prop [] ''document_id'' = JUndefined
   \<and> \<not> IngestResponse []
   \<and> uploadDocument None html_server sample_file () =
     ([(\<lparr>req_method = POST, req_url = ''http://localhost:8000/api/v1/ingest'',
          req_body = FormData sample_file\<rparr>, Inr html_page)],
      Inl (SyntaxError ''Unexpected token < in JSON at position 0''), ())
   \<and> ok html_page
   \<and> uploadDocument None unreachable sample_file () =
     ([(\<lparr>req_method = POST, req_url = ''http://localhost:8000/api/v1/ingest'',
          req_body = FormData sample_file\<rparr>, Inl (TypeError ''Failed to fetch''))],
      Inl (TypeError ''Failed to fetch''), ())
   \<and> uploadDocument None null_error_server sample_file () =
     ([(\<lparr>req_method = POST, req_url = ''http://localhost:8000/api/v1/ingest'',
          req_body = FormData sample_file\<rparr>,
        Inr \<lparr>status = 500, json = Inr JNull, body = None\<rparr>)],
      Inl (TypeError (''Cannot read properties of null (reading '' @ [CHR 0x27] @ ''detail''
                      @ [CHR 0x27] @ '')'')), ())"
  by (simp add: upload_empty_object_server upload_html_server upload_unreachable
      upload_null_error_server)
     (simp add: get_prop_def IngestResponse_def)

text \<open>
  The theorem at work: an ingestion record after the fallback, the \<open>detail\<close> of a 500,
  a page that is no JSON, and no server.
\<close>

theorem uploadDocument_settles_witness:
  "(fst (snd (uploadDocument None legacy_only sample_file ())) = Inr (JObj sample_ingest_body)
    \<and> (\<exists>i f n m. get_prop sample_ingest_body ''document_id'' = JStr i
          \<and> get_prop sample_ingest_body ''filename'' = JStr f
          \<and> get_prop sample_ingest_body ''chunks_created'' = JNum n
          \<and> get_prop sample_ingest_body ''message'' = JStr m))
   \<and> (\<exists>r. fst (legacy_only \<lparr>req_method = POST, req_url = ''http://localhost:8000/api/ingest'',
                                req_body = FormData sample_file\<rparr> ()) = Inr r
          \<and> ok r \<and> json r = Inr (JObj sample_ingest_body))
   \<and> fst (snd (uploadDocument None failing_server sample_file ())) =
       Inl (Error ''Failed to process PDF'')
   \<and> fst (snd (uploadDocument None html_server sample_file ())) =
       Inl (SyntaxError ''Unexpected token < in JSON at position 0'')
   \<and> fst (snd (uploadDocument None unreachable sample_file ())) =
       Inl (TypeError ''Failed to fetch'')"
proof -
  have f1: "legacy_only \<lparr>req_method = POST, req_url = API_BASE_URL None @ API_VERSION @ ''/ingest'',
      req_body = FormData sample_file\<rparr> () = (Inr not_found, ())"
    using legacy_only_routes(1) [of POST "''/ingest''"] by (simp add: sample_urls)
  have f2: "legacy_only \<lparr>req_method = POST, req_url = API_BASE_URL None @ LEGACY_API @ ''/ingest'',
      req_body = FormData sample_file\<rparr> () =
      (Inr \<lparr>status = 200, json = Inr (JObj sample_ingest_body), body = None\<rparr>, ())"
    by (simp add: sample_urls legacy_only_routes)
  note on_legacy = uploadDocument_settles [of None sample_file legacy_only "()",
      unfolded Let_def f1 f2 prod.case sum.case status_not_found, THEN conjunct1,
      unfolded eqTrueI [OF refl [of "404::nat"]] if_True sum.case,
      THEN conjunct2, THEN conjunct2, THEN spec, of sample_ingest_body]
  have "ok \<lparr>status = 200, json = Inr (JObj sample_ingest_body), body = None\<rparr>
      \<and> json \<lparr>status = 200, json = Inr (JObj sample_ingest_body), body = None\<rparr> =
          Inr (JObj sample_ingest_body)
      \<and> IngestResponse sample_ingest_body"
    by (simp add: ok_def sample_ingest_fields)
  with on_legacy have 1:
    "fst (snd (uploadDocument None legacy_only sample_file ())) = Inr (JObj sample_ingest_body)
     \<and> (\<exists>i f n m. get_prop sample_ingest_body ''document_id'' = JStr i
          \<and> get_prop sample_ingest_body ''filename'' = JStr f
          \<and> get_prop sample_ingest_body ''chunks_created'' = JNum n
          \<and> get_prop sample_ingest_body ''message'' = JStr m)"
    by (rule mp)
  note only_ok = uploadDocument_settles [of None sample_file legacy_only "()",
      unfolded Let_def f1 f2 prod.case sum.case status_not_found, THEN conjunct2,
      unfolded eqTrueI [OF refl [of "404::nat"]] if_True, THEN spec,
      of "JObj sample_ingest_body"]
  from only_ok 1 [THEN conjunct1]
  have "\<exists>r. (Inr \<lparr>status = 200, json = Inr (JObj sample_ingest_body), body = None\<rparr>
                :: error + response) = Inr r
          \<and> ok r \<and> json r = Inr (JObj sample_ingest_body)"
    by (rule mp)
  then have 5: "\<exists>r. fst (legacy_only \<lparr>req_method = POST,
                                req_url = ''http://localhost:8000/api/ingest'',
                                req_body = FormData sample_file\<rparr> ()) = Inr r
          \<and> ok r \<and> json r = Inr (JObj sample_ingest_body)"
    by (simp add: legacy_only_routes)
  have 2: "fst (snd (uploadDocument None failing_server sample_file ())) =
       Inl (Error ''Failed to process PDF'')"
    using uploadDocument_settles [of None sample_file failing_server "()"]
    by (simp add: failing_server_def Let_def)
       (simp add: server_error_def read_prop_def get_prop_def)
  have 3: "fst (snd (uploadDocument None html_server sample_file ())) =
       Inl (SyntaxError ''Unexpected token < in JSON at position 0'')"
    using uploadDocument_settles [of None sample_file html_server "()"]
    by (simp add: html_server_def Let_def)
  have 4: "fst (snd (uploadDocument None unreachable sample_file ())) =
       Inl (TypeError ''Failed to fetch'')"
    using uploadDocument_settles [of None sample_file unreachable "()"]
    by (simp add: unreachable_def Let_def)
  show ?thesis
    by (rule conjI [OF 1 conjI [OF 5 conjI [OF 2 conjI [OF 3 4]]]])
qed

text \<open>
  Claim C9. \<open>uploadDocument\<close>, \<open>sendChatMessage\<close> and \<open>listDocuments\<close> hand
  \<open>fetch\<close> the request for the v1 route and, exactly when its answer is a response of
  status 404, the request for the legacy route next; the exchanges are those requests
  with the answers \<open>fetch\<close> gave. A first response that is not ok with another status,
  or a \<open>fetch\<close> that rejects, makes them throw after that one request.
  \<open>deleteDocument\<close> and \<open>getStats\<close> hand \<open>fetch\<close> one request, for the v1 route, and
  throw on 404.
\<close>

theorem fallback_asymmetry:
  "(let req1 = \<lparr>req_method = POST, req_url = API_BASE_URL env @ API_VERSION @ ''/ingest'',
                 req_body = FormData file\<rparr>;
        req2 = \<lparr>req_method = POST, req_url = API_BASE_URL env @ LEGACY_API @ ''/ingest'',
                 req_body = FormData file\<rparr>;
        (a1, w1) = fetch req1 w;
        (a2, w2) = fetch req2 w1;
        (xs, outcome, w') = uploadDocument env fetch file w
    in case a1 of
         Inl e \<Rightarrow> xs = [(req1, a1)] \<and> w' = w1 \<and> outcome = Inl e
       | Inr r1 \<Rightarrow>
           (status r1 = 404 \<longrightarrow> xs = [(req1, a1), (req2, a2)] \<and> w' = w2)
         \<and> (status r1 \<noteq> 404 \<longrightarrow> xs = [(req1, a1)] \<and> w' = w1)
         \<and> (status r1 \<noteq> 404 \<and> \<not> ok r1 \<longrightarrow>
              outcome = Inl (http_error r1 ''Upload failed'' ''Failed to upload document'')))
   \<and> (let req1 = \<lparr>req_method = POST, req_url = API_BASE_URL env @ API_VERSION @ ''/chat'',
                 req_body = ChatJson msg (slice_last 10 history)\<rparr>;
        req2 = \<lparr>req_method = POST, req_url = API_BASE_URL env @ LEGACY_API @ ''/chat'',
                 req_body = ChatJson msg (slice_last 10 history)\<rparr>;
        (a1, w1) = fetch req1 w;
        (a2, w2) = fetch req2 w1;
        (xs, callbacks, outcome, w') = sendChatMessage JSON_parse env fetch msg history w
    in case a1 of
         Inl e \<Rightarrow> xs = [(req1, a1)] \<and> w' = w1 \<and> outcome = Inl e
       | Inr r1 \<Rightarrow>
           (status r1 = 404 \<longrightarrow> xs = [(req1, a1), (req2, a2)] \<and> w' = w2)
         \<and> (status r1 \<noteq> 404 \<longrightarrow> xs = [(req1, a1)] \<and> w' = w1)
         \<and> (status r1 \<noteq> 404 \<and> \<not> ok r1 \<longrightarrow>
              outcome = Inl (http_error r1 ''Chat failed'' ''Failed to get response'')))
   \<and> (let req1 = \<lparr>req_method = GET, req_url = API_BASE_URL env @ API_VERSION @ ''/documents'',
                 req_body = NoBody\<rparr>;
        req2 = \<lparr>req_method = GET, req_url = API_BASE_URL env @ LEGACY_API @ ''/documents'',
                 req_body = NoBody\<rparr>;
        (a1, w1) = fetch req1 w;
        (a2, w2) = fetch req2 w1;
        (xs, outcome, w') = listDocuments env fetch w
    in case a1 of
         Inl e \<Rightarrow> xs = [(req1, a1)] \<and> w' = w1 \<and> outcome = Inl e
       | Inr r1 \<Rightarrow>
           (status r1 = 404 \<longrightarrow> xs = [(req1, a1), (req2, a2)] \<and> w' = w2)
         \<and> (status r1 \<noteq> 404 \<longrightarrow> xs = [(req1, a1)] \<and> w' = w1)
         \<and> (status r1 \<noteq> 404 \<and> \<not> ok r1 \<longrightarrow>
              outcome = Inl (http_error r1 ''Failed to list documents''
                               ''Failed to list documents'')))
   \<and> (let req = \<lparr>req_method = DELETE,
                req_url = API_BASE_URL env @ API_VERSION @ ''/documents/'' @ documentId,
                req_body = NoBody\<rparr>;
        (a, w1) = fetch req w;
        (xs, outcome, w') = deleteDocument env fetch documentId w
    in xs = [(req, a)] \<and> w' = w1
       \<and> (case a of
             Inl e \<Rightarrow> outcome = Inl e
           | Inr r \<Rightarrow>
               (status r = 404 \<longrightarrow>
                outcome = Inl (http_error r ''Failed to delete document''
                                 ''Failed to delete document''))))
   \<and> (let req = \<lparr>req_method = GET, req_url = API_BASE_URL env @ API_VERSION @ ''/stats'',
                req_body = NoBody\<rparr>;
        (a, w1) = fetch req w;
        (xs, outcome, w') = getStats env fetch w
    in xs = [(req, a)] \<and> w' = w1
       \<and> (case a of
             Inl e \<Rightarrow> outcome = Inl e
           | Inr r \<Rightarrow>
               (status r = 404 \<longrightarrow>
                outcome = Inl (http_error r ''Failed to get stats'' ''Failed to get stats''))))"
  by (intro conjI uploadDocument_fallback sendChatMessage_fallback listDocuments_fallback
      deleteDocument_no_fallback getStats_no_fallback)

text \<open>
  The theorem at work on a server that knows the legacy routes only, where the first
  three operations send two requests and the other two throw after one, and on a
  server that answers every request 500, where all stop after one request.
\<close>

theorem fallback_asymmetry_witness:
  "fst (uploadDocument None legacy_only sample_file ()) =
     [(\<lparr>req_method = POST, req_url = ''http://localhost:8000/api/v1/ingest'',
          req_body = FormData sample_file\<rparr>, Inr not_found),
      (\<lparr>req_method = POST, req_url = ''http://localhost:8000/api/ingest'',
          req_body = FormData sample_file\<rparr>,
        Inr \<lparr>status = 200, json = Inr (JObj sample_ingest_body), body = None\<rparr>)]
   \<and> map (req_url \<circ> fst) (fst (sendChatMessage sample_parse None legacy_only ''What is RAG?'' [] ())) =
       [''http://localhost:8000/api/v1/chat'', ''http://localhost:8000/api/chat'']
   \<and> map (req_url \<circ> fst) (fst (listDocuments None legacy_only ())) =
       [''http://localhost:8000/api/v1/documents'', ''http://localhost:8000/api/documents'']
   \<and> uploadDocument None failing_server sample_file () =
       ([(\<lparr>req_method = POST, req_url = ''http://localhost:8000/api/v1/ingest'',
            req_body = FormData sample_file\<rparr>, Inr server_error)],
        Inl (Error ''Failed to process PDF''), ())
   \<and> map (req_url \<circ> fst) (fst (sendChatMessage sample_parse None failing_server ''What is RAG?'' [] ())) =
       [''http://localhost:8000/api/v1/chat'']
   \<and> fst (snd (snd (sendChatMessage sample_parse None failing_server ''What is RAG?'' [] ()))) =
       Inl (Error ''Failed to process PDF'')
   \<and> listDocuments None failing_server () =
       ([(\<lparr>req_method = GET, req_url = ''http://localhost:8000/api/v1/documents'',
            req_body = NoBody\<rparr>, Inr server_error)],
        Inl (Error ''Failed to process PDF''), ())
   \<and> deleteDocument None legacy_only ''d1'' () =
       ([(\<lparr>req_method = DELETE, req_url = ''http://localhost:8000/api/v1/documents/d1'',
            req_body = NoBody\<rparr>, Inr not_found)],
        Inl (Error ''Not Found''), ())
   \<and> getStats None legacy_only () =
       ([(\<lparr>req_method = GET, req_url = ''http://localhost:8000/api/v1/stats'',
            req_body = NoBody\<rparr>, Inr not_found)],
        Inl (Error ''Not Found''), ())"
proof -
  note on_legacy = fallback_asymmetry [of None sample_file legacy_only "()"
      "''What is RAG?''" "[]" sample_parse "''d1''"]
  note on_failing = fallback_asymmetry [of None sample_file failing_server "()"
      "''What is RAG?''" "[]" sample_parse "''d1''"]
  have v1: "legacy_only \<lparr>req_method = m, req_url = API_BASE_URL None @ API_VERSION @ p,
      req_body = b\<rparr> () = (Inr not_found, ())" for m p b
    using legacy_only_routes(1) [of m p b "()"] by (simp add: sample_urls)
  have failing: "failing_server q () = (Inr server_error, ())" for q
    by (simp add: failing_server_def)
  from on_legacy have u:
    "fst (uploadDocument None legacy_only sample_file ()) =
       [(\<lparr>req_method = POST, req_url = API_BASE_URL None @ API_VERSION @ ''/ingest'',
           req_body = FormData sample_file\<rparr>, Inr not_found),
        (\<lparr>req_method = POST, req_url = API_BASE_URL None @ LEGACY_API @ ''/ingest'',
           req_body = FormData sample_file\<rparr>,
         fst (legacy_only \<lparr>req_method = POST, req_url = API_BASE_URL None @ LEGACY_API @ ''/ingest'',
           req_body = FormData sample_file\<rparr> ()))]"
    by (simp add: v1 Let_def split: prod.splits)
  from on_legacy have c:
    "map (req_url \<circ> fst)
       (fst (sendChatMessage sample_parse None legacy_only ''What is RAG?'' [] ())) =
       [API_BASE_URL None @ API_VERSION @ ''/chat'', API_BASE_URL None @ LEGACY_API @ ''/chat'']"
    by (simp add: v1 Let_def split: prod.splits)
  from on_legacy have l:
    "map (req_url \<circ> fst) (fst (listDocuments None legacy_only ())) =
       [API_BASE_URL None @ API_VERSION @ ''/documents'',
        API_BASE_URL None @ LEGACY_API @ ''/documents'']"
    by (simp add: v1 Let_def split: prod.splits)
  from on_failing have uf:
    "uploadDocument None failing_server sample_file () =
       ([(\<lparr>req_method = POST, req_url = API_BASE_URL None @ API_VERSION @ ''/ingest'',
            req_body = FormData sample_file\<rparr>, Inr server_error)],
        Inl (http_error server_error ''Upload failed'' ''Failed to upload document''), ())"
    by (simp add: failing Let_def split: prod.splits)
  from on_failing have cf:
    "map (req_url \<circ> fst)
       (fst (sendChatMessage sample_parse None failing_server ''What is RAG?'' [] ())) =
       [API_BASE_URL None @ API_VERSION @ ''/chat'']
     \<and> fst (snd (snd (sendChatMessage sample_parse None failing_server ''What is RAG?'' [] ()))) =
       Inl (http_error server_error ''Chat failed'' ''Failed to get response'')"
    by (simp add: failing Let_def split: prod.splits)
  from on_failing have lf:
    "listDocuments None failing_server () =
       ([(\<lparr>req_method = GET, req_url = API_BASE_URL None @ API_VERSION @ ''/documents'',
            req_body = NoBody\<rparr>, Inr server_error)],
        Inl (http_error server_error ''Failed to list documents'' ''Failed to list documents''), ())"
    by (simp add: failing Let_def split: prod.splits)
  from on_legacy have d:
    "deleteDocument None legacy_only ''d1'' () =
       ([(\<lparr>req_method = DELETE, req_url = API_BASE_URL None @ API_VERSION @ ''/documents/'' @ ''d1'',
            req_body = NoBody\<rparr>, Inr not_found)],
        Inl (http_error not_found ''Failed to delete document'' ''Failed to delete document''), ())"
    by (simp add: v1 Let_def split: prod.splits)
  from on_legacy have g:
    "getStats None legacy_only () =
       ([(\<lparr>req_method = GET, req_url = API_BASE_URL None @ API_VERSION @ ''/stats'',
            req_body = NoBody\<rparr>, Inr not_found)],
        Inl (http_error not_found ''Failed to get stats'' ''Failed to get stats''), ())"
    by (simp add: v1 Let_def split: prod.splits)
  show ?thesis
    unfolding u c l uf cf [THEN conjunct1] cf [THEN conjunct2] lf d g
    by (simp add: sample_urls legacy_only_routes http_error_samples)
qed

section \<open>Claims about the upload widget and the chat page\<close>

lemma endsWith_iff_suffix: "endsWith s p \<longleftrightarrow> (\<exists>stem. s = stem @ p)"
proof
  assume "endsWith s p"
  then have "s = take (length s - length p) s @ p"
    by (metis append_take_drop_id endsWith_def)
  then show "\<exists>stem. s = stem @ p" ..
next
  assume "\<exists>stem. s = stem @ p"
  then show "endsWith s p" by (auto simp: endsWith_def)
qed

lemma endsWith_lower:
  "endsWith (toLowerCase n) p \<longleftrightarrow> (\<exists>stem ext. n = stem @ ext \<and> toLowerCase ext = p)"
  unfolding endsWith_iff_suffix toLowerCase_def
  by (auto simp: map_eq_append_conv)

lemma sample_file_is_pdf:
  "\<exists>stem ext. file_name sample_file = stem @ ext \<and> toLowerCase ext = ''.pdf''"
  unfolding endsWith_lower [symmetric]
  by (simp add: sample_file_def endsWith_def toLowerCase_def lower_char_def)

lemma big_file_is_pdf:
  "\<exists>stem ext. file_name big_file = stem @ ext \<and> toLowerCase ext = ''.pdf''"
  unfolding endsWith_lower [symmetric]
  by (simp add: big_file_def endsWith_def toLowerCase_def lower_char_def)

lemma text_file_is_not_pdf:
  "\<not> (\<exists>stem ext. file_name text_file = stem @ ext \<and> toLowerCase ext = ''.pdf'')"
  unfolding endsWith_lower [symmetric]
  by (simp add: text_file_def endsWith_def toLowerCase_def lower_char_def)

text \<open>
  Claim C8. \<open>processFile\<close> calls \<open>uploadDocument\<close> exactly for a file whose name ends,
  whatever the case of its letters, in \<open>.pdf\<close> and whose size is at most
  \<open>50 * 1024 * 1024\<close> bytes. For any other file it makes no request and appends one
  error entry: \<open>Only PDF files are supported\<close>, or \<open>File size exceeds 50MB limit\<close> for
  a PDF that is too large.
\<close>

theorem processFile_validates:
  "(let (xs, files', w') = processFile env fetch file files w;
        is_pdf = (\<exists>stem ext. file_name file = stem @ ext \<and> toLowerCase ext = ''.pdf'');
        fits = (file_size file \<le> 50 * 1024 * 1024)
    in (xs \<noteq> [] \<longleftrightarrow> is_pdf \<and> fits)
     \<and> (\<not> is_pdf \<longrightarrow>
          xs = [] \<and> w' = w
          \<and> files' = Inr (files @ [\<lparr>uf_name = file_name file, uf_status = StatusError,
                                     uf_message = JStr ''Only PDF files are supported'',
                                     uf_chunks = JUndefined\<rparr>]))
     \<and> (is_pdf \<and> \<not> fits \<longrightarrow>
          xs = [] \<and> w' = w
          \<and> files' = Inr (files @ [\<lparr>uf_name = file_name file, uf_status = StatusError,
                                     uf_message = JStr ''File size exceeds 50MB limit'',
                                     uf_chunks = JUndefined\<rparr>]))
     \<and> (is_pdf \<and> fits \<longrightarrow> xs = fst (uploadDocument env fetch file w)))"
proof -
  have ne: "fst (uploadDocument env fetch file w) \<noteq> []"
    by (simp add: uploadDocument_run Let_def split: prod.splits sum.splits)
  show ?thesis
    using ne
    by (auto simp: processFile_def Let_def endsWith_lower split: prod.splits sum.splits)
qed

theorem processFile_validates_witness:
  "fst (processFile None legacy_only sample_file [] ()) =
     fst (uploadDocument None legacy_only sample_file ())
   \<and> processFile None legacy_only text_file [] () =
       ([], Inr [\<lparr>uf_name = ''notes.txt'', uf_status = StatusError,
                   uf_message = JStr ''Only PDF files are supported'', uf_chunks = JUndefined\<rparr>], ())
   \<and> processFile None legacy_only big_file [] () =
       ([], Inr [\<lparr>uf_name = ''big.pdf'', uf_status = StatusError,
                   uf_message = JStr ''File size exceeds 50MB limit'', uf_chunks = JUndefined\<rparr>], ())"
proof -
  have 1: "fst (processFile None legacy_only sample_file [] ()) =
      fst (uploadDocument None legacy_only sample_file ())"
    using processFile_validates [of None legacy_only sample_file "[]" "()"] sample_file_is_pdf
    by (auto simp: Let_def sample_file_def split: prod.splits)
  have 2: "processFile None legacy_only text_file [] () =
       ([], Inr [\<lparr>uf_name = ''notes.txt'', uf_status = StatusError,
                   uf_message = JStr ''Only PDF files are supported'', uf_chunks = JUndefined\<rparr>], ())"
    using processFile_validates [of None legacy_only text_file "[]" "()"] text_file_is_not_pdf
    by (auto simp: Let_def text_file_def split: prod.splits)
  have 3: "processFile None legacy_only big_file [] () =
       ([], Inr [\<lparr>uf_name = ''big.pdf'', uf_status = StatusError,
                   uf_message = JStr ''File size exceeds 50MB limit'', uf_chunks = JUndefined\<rparr>], ())"
    using processFile_validates [of None legacy_only big_file "[]" "()"] big_file_is_pdf
    by (auto simp: Let_def big_file_def split: prod.splits)
  from 1 2 3 show ?thesis by blast
qed

lemma trim_Nil [simp]: "trim [] = []"
  by (simp add: trim_def)

lemma dropWhile_id: "xs = [] \<or> \<not> P (hd xs) \<Longrightarrow> dropWhile P xs = xs"
  by (cases xs) auto

lemma trim_idem: "trim (trim s) = trim s"
proof -
  define t where "t = dropWhile is_space s"
  define u where "u = rev (dropWhile is_space (rev t))"
  have ru: "rev u = dropWhile is_space (rev t)" by (simp add: u_def)
  have t_hd: "t = [] \<or> \<not> is_space (hd t)"
    unfolding t_def using hd_dropWhile [of is_space s] by blast
  have "u = take (length u) t"
  proof -
    have "rev t = takeWhile is_space (rev t) @ rev u"
      by (simp add: ru)
    then have "t = u @ rev (takeWhile is_space (rev t))"
      by (metis rev_append rev_rev_ident)
    then show ?thesis by (metis append_eq_conv_conj)
  qed
  then have u_hd: "u = [] \<or> \<not> is_space (hd u)"
    using t_hd by (cases u; cases t) auto
  have u_last: "rev u = [] \<or> \<not> is_space (hd (rev u))"
    unfolding ru using hd_dropWhile [of is_space "rev t"] by blast
  have "dropWhile is_space u = u"
    using u_hd by (rule dropWhile_id)
  moreover have "dropWhile is_space (rev u) = rev u"
    using u_last by (rule dropWhile_id)
  ultimately have "trim u = u" by (simp add: trim_def)
  then show ?thesis by (simp add: trim_def u_def t_def)
qed

lemma append_chunk_last:
  "append_chunk c ms =
     (if ms = [] then []
      else if role (last ms) = Assistant
      then butlast ms @ [(last ms)\<lparr>content := content (last ms) @ ToString c\<rparr>]
      else ms)"
proof (cases "ms = []")
  case True
  then show ?thesis by (simp add: append_chunk_def)
next
  case False
  then have n: "ms ! (length ms - 1) = last ms"
    by (simp add: last_conv_nth)
  have "ms[length ms - 1 := x] = butlast ms @ [x]" for x
  proof -
    have "(butlast ms @ [last ms])[length (butlast ms) := x] = butlast ms @ [x]"
      by (simp only: list_update_length)
    then show ?thesis using False by simp
  qed
  with n False show ?thesis by (simp add: append_chunk_def Let_def)
qed

lemma append_chunk_length: "length (append_chunk c ms) = length ms"
  by (simp add: append_chunk_def Let_def)

text \<open>
  The callbacks keep the number of messages, so the updater never meets an empty list
  after \<open>handleSubmit\<close> has appended its two messages.
\<close>

lemma callbacks_keep_length:
  "length (messages (foldl run_callback st cbs)) = length (messages st)"
proof (induction cbs arbitrary: st)
  case Nil
  then show ?case by simp
next
  case (Cons cb cbs)
  have "length (messages (run_callback st cb)) = length (messages st)"
    by (cases cb) (simp_all add: append_chunk_length)
  with Cons show ?case by simp
qed

lemma users_append_chunk:
  "filter (\<lambda>m. role m = User) (append_chunk c ms) = filter (\<lambda>m. role m = User) ms"
proof (cases "ms = []")
  case True
  then show ?thesis by (simp add: append_chunk_last)
next
  case False
  then have "ms = butlast ms @ [last ms]" by simp
  then have "filter (\<lambda>m. role m = User) ms =
      filter (\<lambda>m. role m = User) (butlast ms) @ filter (\<lambda>m. role m = User) [last ms]"
    by (metis filter_append)
  then show ?thesis using False by (simp add: append_chunk_last)
qed

lemma users_run_callback:
  "filter (\<lambda>m. role m = User) (messages (run_callback st cb)) =
     filter (\<lambda>m. role m = User) (messages st)"
  by (cases cb) (simp_all add: users_append_chunk)

lemma users_callbacks:
  "filter (\<lambda>m. role m = User) (messages (foldl run_callback st cbs)) =
     filter (\<lambda>m. role m = User) (messages st)"
  by (induction cbs arbitrary: st) (simp_all add: users_run_callback)

lemma users_filter_nonempty:
  "\<forall>m \<in> set ms. role m = User \<longrightarrow> trim (content m) \<noteq> [] \<Longrightarrow>
     filter (\<lambda>m. role m = User) (filter (\<lambda>m. content m \<noteq> []) ms) =
     filter (\<lambda>m. role m = User) ms"
  by (induction ms) auto

lemma users_nonempty_iff:
  "(\<forall>m \<in> set ms. role m = User \<longrightarrow> trim (content m) \<noteq> []) \<longleftrightarrow>
   (\<forall>m \<in> set (filter (\<lambda>m. role m = User) ms). trim (content m) \<noteq> [])"
  by auto

lemma handleSubmit_idle:
  "trim (input st) = [] \<or> isLoading st \<Longrightarrow> handleSubmit JSON_parse env fetch st w = ([], st, w)"
  by (simp add: handleSubmit_def)

lemma handleSubmit_sends:
  assumes "trim (input st) \<noteq> []" "\<not> isLoading st"
    and "sendChatMessage JSON_parse env fetch (trim (input st)) (messages st) w = (xs, cbs, outcome, w')"
  shows "handleSubmit JSON_parse env fetch st w =
     (xs,
      (let st3 = foldl run_callback
                   (st\<lparr>input := [], isLoading := True, error := None, sources := JArr [],
                       messages := messages st @ [\<lparr>role = User, content = trim (input st)\<rparr>,
                                                   \<lparr>role = Assistant, content = []\<rparr>]\<rparr>) cbs
       in (case outcome of
             Inl err \<Rightarrow> st3\<lparr>error := Some (error_message err),
                            messages := filter (\<lambda>m. content m \<noteq> []) (messages st3)\<rparr>
           | Inr u \<Rightarrow> st3)\<lparr>isLoading := False\<rparr>), w')"
  using assms by (cases outcome) (simp_all add: handleSubmit_def Let_def)

lemma trim_sample [simp]: "trim ''  What is RAG? '' = ''What is RAG?''" "trim ''hi'' = ''hi''"
  by (simp_all add: trim_def is_space_def)

lemma handleSubmit_sample:
  "handleSubmit JSON_parse None failing_server sample_page () =
     ([(\<lparr>req_method = POST, req_url = ''http://localhost:8000/api/v1/chat'',
          req_body = ChatJson ''What is RAG?''
            [\<lparr>role = User, content = ''hi''\<rparr>, \<lparr>role = Assistant, content = []\<rparr>]\<rparr>,
        Inr server_error)],
      \<lparr>messages = [\<lparr>role = User, content = ''hi''\<rparr>, \<lparr>role = User, content = ''What is RAG?''\<rparr>],
       input = [], isLoading = False, error = Some ''Failed to process PDF'', sources = JArr []\<rparr>,
      ())"
  by (simp add: handleSubmit_def sample_page_def send_failing_server Let_def slice_last_def)

text \<open>
  Claim C10. If every user message of the page has content that is not empty after
  trimming, the same holds after \<open>handleSubmit\<close>. With an input that trims to nothing, or
  while a request is in flight, \<open>handleSubmit\<close> changes nothing and sends nothing.
  Otherwise the user messages are the old ones followed by the trimmed input, and when
  the request failed no message with empty content is left.
\<close>

theorem handleSubmit_user_messages:
  assumes inv: "\<forall>m \<in> set (messages st). role m = User \<longrightarrow> trim (content m) \<noteq> []"
  shows "(let (xs, st', w') = handleSubmit JSON_parse env fetch st w in
      (\<forall>m \<in> set (messages st'). role m = User \<longrightarrow> trim (content m) \<noteq> [])
      \<and> (trim (input st) = [] \<or> isLoading st \<longrightarrow> st' = st \<and> xs = [] \<and> w' = w)
      \<and> (trim (input st) \<noteq> [] \<and> \<not> isLoading st \<longrightarrow>
           filter (\<lambda>m. role m = User) (messages st') =
             filter (\<lambda>m. role m = User) (messages st) @ [\<lparr>role = User, content = trim (input st)\<rparr>])
      \<and> (trim (input st) \<noteq> [] \<and> \<not> isLoading st
           \<and> isl (fst (snd (snd (sendChatMessage JSON_parse env fetch (trim (input st)) (messages st) w))))
           \<longrightarrow> (\<forall>m \<in> set (messages st'). content m \<noteq> [])))"
proof (cases "trim (input st) = [] \<or> isLoading st")
  case True
  then show ?thesis using inv by (auto simp: handleSubmit_idle)
next
  case False
  then have go: "trim (input st) \<noteq> []" "\<not> isLoading st" by simp_all
  obtain xs cbs outcome w' where
    send: "sendChatMessage JSON_parse env fetch (trim (input st)) (messages st) w = (xs, cbs, outcome, w')"
    by (cases "sendChatMessage JSON_parse env fetch (trim (input st)) (messages st) w") auto
  define st2 where "st2 = st\<lparr>input := [], isLoading := True, error := None, sources := JArr [],
                       messages := messages st @ [\<lparr>role = User, content = trim (input st)\<rparr>,
                                                   \<lparr>role = Assistant, content = []\<rparr>]\<rparr>"
  define ms3 where "ms3 = messages (foldl run_callback st2 cbs)"
  have users3: "filter (\<lambda>m. role m = User) ms3 =
      filter (\<lambda>m. role m = User) (messages st) @ [\<lparr>role = User, content = trim (input st)\<rparr>]"
    unfolding ms3_def users_callbacks by (simp add: st2_def)
  have inv3: "\<forall>m \<in> set ms3. role m = User \<longrightarrow> trim (content m) \<noteq> []"
    unfolding users_nonempty_iff [of ms3] users3 using inv go by (auto simp: trim_idem)
  show ?thesis
  proof (cases outcome)
    case (Inl err)
    have "handleSubmit JSON_parse env fetch st w =
        (xs, (foldl run_callback st2 cbs)\<lparr>error := Some (error_message err),
               messages := filter (\<lambda>m. content m \<noteq> []) ms3, isLoading := False\<rparr>, w')"
      using handleSubmit_sends [OF go send] Inl by (simp add: st2_def ms3_def Let_def)
    moreover have "filter (\<lambda>m. role m = User) (filter (\<lambda>m. content m \<noteq> []) ms3) =
        filter (\<lambda>m. role m = User) (messages st) @ [\<lparr>role = User, content = trim (input st)\<rparr>]"
      using users_filter_nonempty [OF inv3] users3 by simp
    ultimately show ?thesis using go inv3 by simp
  next
    case (Inr u)
    have "handleSubmit JSON_parse env fetch st w =
        (xs, (foldl run_callback st2 cbs)\<lparr>isLoading := False\<rparr>, w')"
      using handleSubmit_sends [OF go send] Inr by (simp add: st2_def Let_def)
    then show ?thesis using go inv3 users3 send Inr by (simp add: ms3_def)
  qed
qed

theorem handleSubmit_user_messages_witness:
  "filter (\<lambda>m. role m = User)
      (messages (fst (snd (handleSubmit (\<lambda>s. None) None failing_server sample_page ())))) =
     [\<lparr>role = User, content = ''hi''\<rparr>, \<lparr>role = User, content = ''What is RAG?''\<rparr>]
   \<and> list_all (\<lambda>m. content m \<noteq> [])
        (messages (fst (snd (handleSubmit (\<lambda>s. None) None failing_server sample_page ()))))"
proof -
  have inv: "\<forall>m \<in> set (messages sample_page). role m = User \<longrightarrow> trim (content m) \<noteq> []"
    by (simp add: sample_page_def)
  have go: "trim (input sample_page) \<noteq> [] \<and> \<not> isLoading sample_page"
    by (simp add: sample_page_def)
  have fails: "isl (fst (snd (snd (sendChatMessage (\<lambda>s. None) None failing_server
      (trim (input sample_page)) (messages sample_page) ()))))"
    by (simp add: send_failing_server)
  have vals: "messages sample_page =
      [\<lparr>role = User, content = ''hi''\<rparr>, \<lparr>role = Assistant, content = []\<rparr>]"
    "trim (input sample_page) = ''What is RAG?''"
    by (simp_all add: sample_page_def)
  show ?thesis
    using handleSubmit_user_messages [OF inv, of "\<lambda>s. None" None failing_server "()"] go fails
    by (simp add: handleSubmit_sample list_all_iff vals)
qed

section \<open>The back end modelled from the specification: lemmas and claims\<close>

lemma windows_length:
  "0 < step \<Longrightarrow> chunk_size < length t \<Longrightarrow> step \<le> chunk_size \<Longrightarrow>
     length (windows chunk_size step t) = ceil_div (length t - (chunk_size - step)) step"
proof (induction chunk_size step t rule: windows.induct)
  case (1 chunk_size step t)
  let ?rest = "drop step t"
  have unfold: "windows chunk_size step t = take chunk_size t # windows chunk_size step ?rest"
    using "1.prems" by (subst windows.simps) simp
  show ?case
  proof (cases "length ?rest \<le> chunk_size")
    case True
    then have "windows chunk_size step ?rest = [?rest]"
      by (subst windows.simps) simp
    with unfold have l: "length (windows chunk_size step t) = 2" by simp
    define k where "k = length t - chunk_size"
    have k: "length t = chunk_size + k" "0 < k" "k \<le> step"
      using "1.prems" True by (simp_all add: k_def)
    have "length t - (chunk_size - step) = step + k"
      using k "1.prems" by simp
    moreover have "(step + k + step - 1) div step = 2"
    proof -
      obtain j where j: "k = Suc j" using k by (cases k) auto
      then have "j < step" using k by simp
      then have "(step * 2 + j) div step = 2" by simp
      moreover have "step + k + step - 1 = step * 2 + j" using j by simp
      ultimately show ?thesis by simp
    qed
    ultimately show ?thesis using l by (simp add: ceil_div_def)
  next
    case False
    then have big: "chunk_size < length ?rest" by simp
    have ih: "length (windows chunk_size step ?rest) =
        ceil_div (length ?rest - (chunk_size - step)) step"
      using "1.IH" "1.prems" big by simp
    have "length ?rest - (chunk_size - step) + step = length t - (chunk_size - step)"
      using big "1.prems" by simp
    moreover have "ceil_div (a + step) step = Suc (ceil_div a step)" for a
    proof -
      have "a + step + step - 1 = (a + step - 1) + step" using "1.prems"(1) by simp
      then have "(a + step + step - 1) div step = (a + step - 1) div step + 1"
        using "1.prems"(1) by (simp only: div_add_self2)
      then show ?thesis by (simp add: ceil_div_def)
    qed
    ultimately have "ceil_div (length t - (chunk_size - step)) step =
        Suc (ceil_div (length ?rest - (chunk_size - step)) step)"
      by metis
    with ih unfold show ?thesis by simp
  qed
qed

text \<open>
  Claim C4. The chunker rejects \<open>overlap >= size\<close> with a configuration error. With
  \<open>overlap < size\<close> it produces no segment for the empty text, one segment (the whole
  text) for a text of at most \<open>size\<close> characters, and
  \<open>ceil((len - overlap) / (size - overlap))\<close> segments for a longer one.
\<close>

theorem chunk_text_count:
  "(chunk_size \<le> overlap \<longrightarrow> chunk_text chunk_size overlap t = Inl ConfigurationError)
   \<and> (overlap < chunk_size \<longrightarrow>
        (\<exists>segs. chunk_text chunk_size overlap t = Inr segs
           \<and> length segs =
               (if t = [] then 0
                else if length t \<le> chunk_size then 1
                else ceil_div (length t - overlap) (chunk_size - overlap))
           \<and> (t \<noteq> [] \<and> length t \<le> chunk_size \<longrightarrow> segs = [t])))"
proof (intro conjI impI)
  assume "chunk_size \<le> overlap"
  then show "chunk_text chunk_size overlap t = Inl ConfigurationError"
    by (simp add: chunk_text_def)
next
  assume lt: "overlap < chunk_size"
  show "\<exists>segs. chunk_text chunk_size overlap t = Inr segs
           \<and> length segs =
               (if t = [] then 0
                else if length t \<le> chunk_size then 1
                else ceil_div (length t - overlap) (chunk_size - overlap))
           \<and> (t \<noteq> [] \<and> length t \<le> chunk_size \<longrightarrow> segs = [t])"
  proof (cases "t = []")
    case True
    with lt show ?thesis by (simp add: chunk_text_def)
  next
    case False
    show ?thesis
    proof (cases "length t \<le> chunk_size")
      case True
      then have "windows chunk_size (chunk_size - overlap) t = [t]"
        by (subst windows.simps) simp
      with lt False True show ?thesis by (simp add: chunk_text_def)
    next
      case long: False
      have "length (windows chunk_size (chunk_size - overlap) t) =
          ceil_div (length t - (chunk_size - (chunk_size - overlap))) (chunk_size - overlap)"
        using lt long by (intro windows_length) simp_all
      moreover have "chunk_size - (chunk_size - overlap) = overlap"
        using lt by simp
      ultimately show ?thesis
        using lt False long by (simp add: chunk_text_def)
    qed
  qed
qed

theorem chunk_text_count_witness:
  "(\<exists>segs. chunk_text 1000 200 (replicate 2500 (CHR ''a'')) = Inr segs \<and> length segs = 3)
   \<and> chunk_text 200 200 ''abc'' = Inl ConfigurationError
   \<and> chunk_text 1000 200 ''abc'' = Inr [''abc'']"
proof -
  have 1: "\<exists>segs. chunk_text 1000 200 (replicate 2500 (CHR ''a'')) = Inr segs \<and> length segs = 3"
    using chunk_text_count [of 1000 200 "replicate 2500 (CHR ''a'')"]
    by (simp add: ceil_div_def)
  have 2: "chunk_text 200 200 ''abc'' = Inl ConfigurationError"
    using chunk_text_count [of 200 200 "''abc''"] by simp
  have 3: "chunk_text 1000 200 ''abc'' = Inr [''abc'']"
    using chunk_text_count [of 1000 200 "''abc''"] by auto
  from 1 2 3 show ?thesis by blast
qed

lemma delete_document_found:
  assumes "did \<in> doc_id ` set (store_documents s)"
  shows "\<exists>s'. delete_document did s =
            Inr (\<lparr>document_id = did,
                   chunks_deleted = length (filter (\<lambda>c. chunk_document_id c = did) (store_chunks s))\<rparr>, s')
          \<and> did \<notin> doc_id ` set (store_documents s')
          \<and> did \<notin> chunk_document_id ` set (store_chunks s')
          \<and> set (store_documents s') = {d \<in> set (store_documents s). doc_id d \<noteq> did}
          \<and> set (store_chunks s') = {c \<in> set (store_chunks s). chunk_document_id c \<noteq> did}
          \<and> length (store_chunks s') + length (filter (\<lambda>c. chunk_document_id c = did) (store_chunks s))
              = length (store_chunks s)"
proof -
  have "length (filter (\<lambda>c. chunk_document_id c \<noteq> did) (store_chunks s))
        + length (filter (\<lambda>c. chunk_document_id c = did) (store_chunks s)) = length (store_chunks s)"
    using sum_length_filter_compl [of "\<lambda>c. chunk_document_id c = did" "store_chunks s"] by simp
  with assms show ?thesis
    by (auto simp: delete_document_def)
qed

lemma delete_document_missing:
  "did \<notin> doc_id ` set (store_documents s) \<Longrightarrow> delete_document did s = Inl NotFoundError"
  by (simp add: delete_document_def)

text \<open>
  \<open>deleteDocument\<close> against the deletion route: the request it builds reaches
  \<open>delete_document\<close> with the id it was given.
\<close>

lemma delete_route_url:
  "startsWith (a @ b @ c @ d) (a @ b @ c)" "drop (length (a @ b @ c)) (a @ b @ c @ d) = d"
  by (simp_all add: startsWith_def)

lemma delete_route_answer:
  "delete_route env \<lparr>req_method = DELETE,
                      req_url = API_BASE_URL env @ API_VERSION @ ''/documents/'' @ did,
                      req_body = NoBody\<rparr> s =
     (case delete_document did s of
        Inl e \<Rightarrow>
          (Inr \<lparr>status = 404, json = Inr (JObj [(''detail'', JStr ''Document not found'')]),
                body = None\<rparr>, s)
      | Inr (res, s') \<Rightarrow>
          (Inr \<lparr>status = 200, json = Inr (JObj (DeleteResponse_json res)), body = None\<rparr>, s'))"
  using delete_route_url [of "API_BASE_URL env" API_VERSION "''/documents/''" did]
  by (simp add: delete_route_def Let_def)

lemma deleteDocument_delete_route:
  "deleteDocument env (delete_route env) did s =
     (let req = \<lparr>req_method = DELETE,
                 req_url = API_BASE_URL env @ API_VERSION @ ''/documents/'' @ did,
                 req_body = NoBody\<rparr>
      in case delete_document did s of
           Inl e \<Rightarrow>
             ([(req, Inr \<lparr>status = 404,
                          json = Inr (JObj [(''detail'', JStr ''Document not found'')]),
                          body = None\<rparr>)],
              Inl (Error ''Document not found''), s)
         | Inr (res, s') \<Rightarrow>
             ([(req, Inr \<lparr>status = 200, json = Inr (JObj (DeleteResponse_json res)),
                          body = None\<rparr>)],
              Inr (JObj (DeleteResponse_json res)), s'))"
proof (cases "delete_document did s")
  case (Inl e)
  with delete_route_answer [of env did s] show ?thesis
    by (simp add: deleteDocument_run Let_def ok_def http_error_message read_prop_def get_prop_def)
next
  case (Inr p)
  obtain res s' where "p = (res, s')" by (cases p)
  with Inr delete_route_answer [of env did s] show ?thesis
    by (simp add: deleteDocument_run Let_def ok_def response_json_def)
qed

lemma delete_sample_store:
  "delete_document ''d1'' sample_store =
     Inr (\<lparr>document_id = ''d1'', chunks_deleted = 2\<rparr>,
          \<lparr>store_documents = [\<lparr>doc_id = ''d2'', doc_name = ''notes.pdf'', created_at = 2\<rparr>],
           store_chunks = [\<lparr>chunk_document_id = ''d2'', sequence_index = 0,
                            chunk_content = ''notes''\<rparr>]\<rparr>)"
  "delete_document ''d9'' sample_store = Inl NotFoundError"
  by (simp_all add: delete_document_def sample_store_def)

text \<open>
  Claim C6. Deleting a document that exists returns its id and the number of its chunks,
  and leaves a store without the document and without any chunk of it, all other
  documents and chunks kept; deleting an id that does not exist fails with
  \<open>NotFoundError\<close>. The client's \<open>deleteDocument\<close> hands \<open>fetch\<close> one request and
  settles by its answer: when \<open>fetch\<close> rejected, with the same error; on a response that
  is not ok, with the \<open>Error\<close> built from the \<open>detail\<close> of the body
  (\<open>Failed to delete document\<close> when the body does not parse or has no \<open>detail\<close>, the
  \<open>TypeError\<close> of the read when the body is \<open>null\<close>); on an ok response, as
  \<open>response.json()\<close> does. So it resolves exactly when the response is ok and its body
  parses, and rejects in every other case. Against the deletion route it resolves with
  \<open>{document_id, chunks_deleted}\<close> and leaves the store \<open>delete_document\<close> leaves, or
  rejects with \<open>Document not found\<close> and leaves the store as it was.
\<close>

theorem delete_document_contract:
  "(did \<in> doc_id ` set (store_documents s) \<longrightarrow>
      (\<exists>s'. delete_document did s =
            Inr (\<lparr>document_id = did,
                   chunks_deleted = length (filter (\<lambda>c. chunk_document_id c = did) (store_chunks s))\<rparr>, s')
          \<and> did \<notin> doc_id ` set (store_documents s')
          \<and> did \<notin> chunk_document_id ` set (store_chunks s')
          \<and> set (store_documents s') = {d \<in> set (store_documents s). doc_id d \<noteq> did}
          \<and> set (store_chunks s') = {c \<in> set (store_chunks s). chunk_document_id c \<noteq> did}
          \<and> length (store_chunks s') + length (filter (\<lambda>c. chunk_document_id c = did) (store_chunks s))
              = length (store_chunks s)))
   \<and> (did \<notin> doc_id ` set (store_documents s) \<longrightarrow> delete_document did s = Inl NotFoundError)
   \<and> (let req = \<lparr>req_method = DELETE,
                req_url = API_BASE_URL env @ API_VERSION @ ''/documents/'' @ documentId,
                req_body = NoBody\<rparr>;
        (a, w1) = fetch req w;
        (xs, outcome, w') = deleteDocument env fetch documentId w
    in xs = [(req, a)] \<and> w' = w1
       \<and> (case a of
            Inl e \<Rightarrow> outcome = Inl e
          | Inr r \<Rightarrow>
              (\<not> ok r \<longrightarrow>
                 outcome =
                   Inl (case json r of
                          Inl m \<Rightarrow> Error ''Failed to delete document''
                        | Inr v \<Rightarrow>
                            (case read_prop v ''detail'' of
                               Inl e \<Rightarrow> e
                             | Inr detail \<Rightarrow>
                                 Error (if truthy detail then ToString detail
                                        else ''Failed to delete document''))))
            \<and> (ok r \<longrightarrow>
                 outcome = (case json r of Inl m \<Rightarrow> Inl (SyntaxError m) | Inr v \<Rightarrow> Inr v)))
       \<and> ((\<exists>v. outcome = Inr v) \<longleftrightarrow> (\<exists>r v. a = Inr r \<and> ok r \<and> json r = Inr v)))
   \<and> deleteDocument env (delete_route env) did s =
     (let req = \<lparr>req_method = DELETE,
                 req_url = API_BASE_URL env @ API_VERSION @ ''/documents/'' @ did,
                 req_body = NoBody\<rparr>
      in case delete_document did s of
           Inl e \<Rightarrow>
             ([(req, Inr \<lparr>status = 404,
                          json = Inr (JObj [(''detail'', JStr ''Document not found'')]),
                          body = None\<rparr>)],
              Inl (Error ''Document not found''), s)
         | Inr (res, s') \<Rightarrow>
             ([(req, Inr \<lparr>status = 200, json = Inr (JObj (DeleteResponse_json res)),
                          body = None\<rparr>)],
              Inr (JObj (DeleteResponse_json res)), s'))"
proof (intro conjI impI)
  assume "did \<in> doc_id ` set (store_documents s)"
  then show "\<exists>s'. delete_document did s =
            Inr (\<lparr>document_id = did,
                   chunks_deleted = length (filter (\<lambda>c. chunk_document_id c = did) (store_chunks s))\<rparr>, s')
          \<and> did \<notin> doc_id ` set (store_documents s')
          \<and> did \<notin> chunk_document_id ` set (store_chunks s')
          \<and> set (store_documents s') = {d \<in> set (store_documents s). doc_id d \<noteq> did}
          \<and> set (store_chunks s') = {c \<in> set (store_chunks s). chunk_document_id c \<noteq> did}
          \<and> length (store_chunks s') + length (filter (\<lambda>c. chunk_document_id c = did) (store_chunks s))
              = length (store_chunks s)"
    by (rule delete_document_found)
next
  assume "did \<notin> doc_id ` set (store_documents s)"
  then show "delete_document did s = Inl NotFoundError"
    by (rule delete_document_missing)
qed (rule deleteDocument_settles deleteDocument_delete_route)+

text \<open>
  The claim has \<open>deleteDocument\<close> reject exactly when the response is not ok. Two runs
  in which it rejects otherwise: on a response that is ok but holds a page that is no
  JSON, with the parser's \<open>SyntaxError\<close>; and with no server at all, where there is no
  response and the \<open>TypeError\<close> of \<open>fetch\<close> comes through.
\<close>

theorem delete_document_contract_counterexample:
  "deleteDocument None html_server ''d1'' () =
     ([(\<lparr>req_method = DELETE, req_url = ''http://localhost:8000/api/v1/documents/d1'',
          req_body = NoBody\<rparr>, Inr html_page)],
      Inl (SyntaxError ''Unexpected token < in JSON at position 0''), ())
   \<and> ok html_page
   \<and> deleteDocument None unreachable ''d1'' () =
     ([(\<lparr>req_method = DELETE, req_url = ''http://localhost:8000/api/v1/documents/d1'',
          req_body = NoBody\<rparr>, Inl (TypeError ''Failed to fetch''))],
      Inl (TypeError ''Failed to fetch''), ())"
  by (simp add: delete_html_server delete_unreachable)

text \<open>
  The theorem at work: a document with two chunks and an unknown id, on the store and
  through the client against the deletion route; then the client on a page that is no
  JSON and on a 404.
\<close>

theorem delete_document_contract_witness:
  "(\<exists>s'. delete_document ''d1'' sample_store = Inr (\<lparr>document_id = ''d1'', chunks_deleted = 2\<rparr>, s')
       \<and> ''d1'' \<notin> doc_id ` set (store_documents s')
       \<and> ''d1'' \<notin> chunk_document_id ` set (store_chunks s')
       \<and> length (store_chunks s') = 1)
   \<and> delete_document ''d9'' sample_store = Inl NotFoundError
   \<and> deleteDocument None (delete_route None) ''d1'' sample_store =
       ([(\<lparr>req_method = DELETE, req_url = ''http://localhost:8000/api/v1/documents/d1'',
            req_body = NoBody\<rparr>,
          Inr \<lparr>status = 200,
               json = Inr (JObj [(''success'', JBool True), (''document_id'', JStr ''d1''),
                                 (''chunks_deleted'', JNum 2)]),
               body = None\<rparr>)],
        Inr (JObj [(''success'', JBool True), (''document_id'', JStr ''d1''),
                   (''chunks_deleted'', JNum 2)]),
        \<lparr>store_documents = [\<lparr>doc_id = ''d2'', doc_name = ''notes.pdf'', created_at = 2\<rparr>],
         store_chunks = [\<lparr>chunk_document_id = ''d2'', sequence_index = 0,
                          chunk_content = ''notes''\<rparr>]\<rparr>)
   \<and> deleteDocument None (delete_route None) ''d9'' sample_store =
       ([(\<lparr>req_method = DELETE, req_url = ''http://localhost:8000/api/v1/documents/d9'',
            req_body = NoBody\<rparr>,
          Inr \<lparr>status = 404, json = Inr (JObj [(''detail'', JStr ''Document not found'')]),
               body = None\<rparr>)],
        Inl (Error ''Document not found''), sample_store)
   \<and> deleteDocument None html_server ''d1'' () =
       ([(\<lparr>req_method = DELETE, req_url = ''http://localhost:8000/api/v1/documents/d1'',
            req_body = NoBody\<rparr>, Inr html_page)],
        Inl (SyntaxError ''Unexpected token < in JSON at position 0''), ())
   \<and> deleteDocument None legacy_only ''d1'' () =
       ([(\<lparr>req_method = DELETE, req_url = ''http://localhost:8000/api/v1/documents/d1'',
            req_body = NoBody\<rparr>, Inr not_found)],
        Inl (Error ''Not Found''), ())"
proof -
  note on_d1 = delete_document_contract [of "''d1''" sample_store None "''d1''" html_server "()"]
  note on_d9 = delete_document_contract [of "''d9''" sample_store None "''d1''" legacy_only "()"]
  have 1: "\<exists>s'. delete_document ''d1'' sample_store = Inr (\<lparr>document_id = ''d1'', chunks_deleted = 2\<rparr>, s')
       \<and> ''d1'' \<notin> doc_id ` set (store_documents s')
       \<and> ''d1'' \<notin> chunk_document_id ` set (store_chunks s')
       \<and> length (store_chunks s') = 1"
    using on_d1 [THEN conjunct1] by (auto simp: sample_store_def)
  have 2: "delete_document ''d9'' sample_store = Inl NotFoundError"
    using on_d9 [THEN conjunct2, THEN conjunct1] by (simp add: sample_store_def)
  have 3: "deleteDocument None (delete_route None) ''d1'' sample_store =
       ([(\<lparr>req_method = DELETE, req_url = ''http://localhost:8000/api/v1/documents/d1'',
            req_body = NoBody\<rparr>,
          Inr \<lparr>status = 200,
               json = Inr (JObj [(''success'', JBool True), (''document_id'', JStr ''d1''),
                                 (''chunks_deleted'', JNum 2)]),
               body = None\<rparr>)],
        Inr (JObj [(''success'', JBool True), (''document_id'', JStr ''d1''),
                   (''chunks_deleted'', JNum 2)]),
        \<lparr>store_documents = [\<lparr>doc_id = ''d2'', doc_name = ''notes.pdf'', created_at = 2\<rparr>],
         store_chunks = [\<lparr>chunk_document_id = ''d2'', sequence_index = 0,
                          chunk_content = ''notes''\<rparr>]\<rparr>)"
    using on_d1 [THEN conjunct2, THEN conjunct2, THEN conjunct2]
    by (simp add: delete_sample_store DeleteResponse_json_def sample_urls)
  have 4: "deleteDocument None (delete_route None) ''d9'' sample_store =
       ([(\<lparr>req_method = DELETE, req_url = ''http://localhost:8000/api/v1/documents/d9'',
            req_body = NoBody\<rparr>,
          Inr \<lparr>status = 404, json = Inr (JObj [(''detail'', JStr ''Document not found'')]),
               body = None\<rparr>)],
        Inl (Error ''Document not found''), sample_store)"
    using on_d9 [THEN conjunct2, THEN conjunct2, THEN conjunct2]
    by (simp add: delete_sample_store sample_urls)
  have v1: "legacy_only \<lparr>req_method = m, req_url = API_BASE_URL None @ API_VERSION @ p,
      req_body = b\<rparr> () = (Inr not_found, ())" for m p b
    using legacy_only_routes(1) [of m p b "()"] by (simp add: sample_urls)
  have 5: "deleteDocument None html_server ''d1'' () =
       ([(\<lparr>req_method = DELETE, req_url = API_BASE_URL None @ API_VERSION @ ''/documents/'' @ ''d1'',
            req_body = NoBody\<rparr>, Inr html_page)],
        Inl (SyntaxError ''Unexpected token < in JSON at position 0''), ())"
    using on_d1 [THEN conjunct2, THEN conjunct2, THEN conjunct1]
    by (simp add: html_server_def Let_def split: prod.splits)
  have 6: "deleteDocument None legacy_only ''d1'' () =
       ([(\<lparr>req_method = DELETE, req_url = API_BASE_URL None @ API_VERSION @ ''/documents/'' @ ''d1'',
            req_body = NoBody\<rparr>, Inr not_found)],
        Inl (Error ''Not Found''), ())"
    using on_d9 [THEN conjunct2, THEN conjunct2, THEN conjunct1] not_ok_404 [of not_found]
    by (simp add: v1 Let_def not_found_def read_prop_def get_prop_def split: prod.splits)
  show ?thesis
    unfolding 3 4 5 6 using 1 2 by (simp add: sample_urls)
qed

lemma reads_keep_store:
  "\<forall>op \<in> set ops. \<not> is_write op \<Longrightarrow> foldl exec_op s ops = s"
proof (induction ops arbitrary: s)
  case Nil
  then show ?case by simp
next
  case (Cons op ops)
  then have "exec_op s op = s" by (cases op) simp_all
  with Cons show ?case by simp
qed

lemma getStats_stats_route:
  "getStats env stats_route s =
     ([(\<lparr>req_method = GET, req_url = API_BASE_URL env @ API_VERSION @ ''/stats'', req_body = NoBody\<rparr>,
        Inr \<lparr>status = 200, json = Inr (JObj (Stats_json (stats s))), body = None\<rparr>)],
      Inr (JObj (Stats_json (stats s))), s)"
  by (simp add: getStats_run stats_route_def Let_def ok_def response_json_def)

text \<open>
  Claim C7. Two calls of \<open>getStats\<close> on the stats route, with only reads of the store
  between them, resolve with the same \<open>{documents, chunks}\<close>: the counts of the store,
  which is left as it was.
\<close>

theorem stats_idempotent:
  "(\<forall>op \<in> set ops. \<not> is_write op) \<longrightarrow>
     (let (xs1, first, s1) = getStats env stats_route s;
          (xs2, second, s2) = getStats env stats_route (foldl exec_op s1 ops)
      in first = second \<and> first = Inr (JObj (Stats_json (stats s))) \<and> s2 = s)"
  by (simp add: getStats_stats_route reads_keep_store)

theorem stats_idempotent_witness:
  "(let (xs1, first, s1) = getStats None stats_route sample_store;
        (xs2, second, s2) =
          getStats None stats_route (foldl exec_op s1 [OpListDocuments, OpStats])
    in first = second \<and> first = Inr (JObj [(''documents'', JNum 2), (''chunks'', JNum 3)])
       \<and> s2 = sample_store)"
  using stats_idempotent [of "[OpListDocuments, OpStats]" None sample_store]
  by (simp add: getStats_stats_route Stats_json_def stats_def sample_store_def)

section \<open>The stream consumer of \<open>sendChatMessage\<close>\<close>

lemma trim_nonempty: "\<not> is_space c \<Longrightarrow> trim (c # s) \<noteq> []"
  by (auto simp: trim_def dropWhile_eq_Nil_conv dropWhile_append)

lemma split_str_line: "c \<notin> set l \<Longrightarrow> split_str c (l @ c # rest) = l # split_str c rest"
  by (induction l) auto

lemma handle_line_event:
  "JSON_parse payload = Some (event_json e) \<Longrightarrow>
     handle_line JSON_parse (''data: '' @ payload) = callbacks_of e"
  by (cases e) (simp_all add: handle_line_def startsWith_def get_prop_def)

lemma read_chunk_Nil [simp]: "read_chunk JSON_parse [] = []"
  by (simp add: read_chunk_def)

lemma read_chunk_frame:
  assumes "CHR 0x0A \<notin> set payload" "JSON_parse payload = Some (event_json e)"
  shows "read_chunk JSON_parse (sse payload @ rest) = callbacks_of e @ read_chunk JSON_parse rest"
proof -
  define line where "line = ''data: '' @ payload"
  have eq: "sse payload @ rest = line @ CHR 0x0A # CHR 0x0A # rest"
    by (simp add: sse_def line_def)
  have "CHR 0x0A \<notin> set line"
    using assms(1) by (simp add: line_def)
  then have "split_str (CHR 0x0A) (line @ CHR 0x0A # CHR 0x0A # rest) =
      line # split_str (CHR 0x0A) (CHR 0x0A # rest)"
    by (rule split_str_line)
  then have sp: "split_str (CHR 0x0A) (sse payload @ rest) = line # [] # split_str (CHR 0x0A) rest"
    by (simp add: eq)
  have tr: "trim line \<noteq> []"
    unfolding line_def using trim_nonempty [of "CHR ''d''"] by (simp add: is_space_def)
  have hl: "handle_line JSON_parse line = callbacks_of e"
    unfolding line_def using assms(2) by (rule handle_line_event)
  show ?thesis
    unfolding read_chunk_def sp using tr hl by simp
qed

lemma read_chunk_frames:
  assumes "\<forall>e. JSON_parse (enc e) = Some (event_json e)" "\<forall>e. CHR 0x0A \<notin> set (enc e)"
  shows "read_chunk JSON_parse (concat (map (\<lambda>e. sse (enc e)) es)) = concat (map callbacks_of es)"
  using assms by (induction es) (simp_all add: read_chunk_frame)

lemma whole_frames_in_order:
  assumes "\<forall>e. JSON_parse (enc e) = Some (event_json e)" "\<forall>e. CHR 0x0A \<notin> set (enc e)"
  shows "concat (map (read_chunk JSON_parse) (deliver enc groups)) =
           concat (map callbacks_of (concat groups))"
  using assms by (induction groups) (simp_all add: deliver_def read_chunk_frames)

lemma content_callbacks:
  "concat (map callbacks_of (map Content fragments)) = map (\<lambda>f. OnContent (JStr f)) fragments"
  by (induction fragments) simp_all

lemma ordered_answer_callbacks:
  assumes "\<forall>e. JSON_parse (enc e) = Some (event_json e)" "\<forall>e. CHR 0x0A \<notin> set (enc e)"
    and "concat groups = Sources names # map Content fragments @ [Done]"
  shows "concat (map (read_chunk JSON_parse) (deliver enc groups)) =
           OnSources (JArr (map JStr names)) # map (\<lambda>f. OnContent (JStr f)) fragments"
  unfolding whole_frames_in_order [OF assms(1,2)] assms(3)
  using content_callbacks [of fragments] by simp

lemma failed_answer_callbacks:
  assumes "\<forall>e. JSON_parse (enc e) = Some (event_json e)" "\<forall>e. CHR 0x0A \<notin> set (enc e)"
    and "concat groups = Sources names # map Content fragments @ [Failed m]"
  shows "concat (map (read_chunk JSON_parse) (deliver enc groups)) =
           OnSources (JArr (map JStr names)) # map (\<lambda>f. OnContent (JStr f)) fragments"
  unfolding whole_frames_in_order [OF assms(1,2)] assms(3)
  using content_callbacks [of fragments] by simp

lemma sendChatMessage_stream_end:
  assumes "sendChatMessage JSON_parse env fetch msg history w = (xs, cbs, outcome, w')"
    and "snd (last xs) = Inr r" "ok r" "body r = Some (cs, fin)"
  shows "cbs = concat (map (read_chunk JSON_parse) cs)
         \<and> outcome = (case fin of EndOfStream \<Rightarrow> Inr () | ConnectionLost m \<Rightarrow> Inl (TypeError m))"
  using assms
  by (auto simp: sendChatMessage_def Let_def split: prod.splits sum.splits if_splits option.splits)

text \<open>
  The sample streams.
\<close>

lemma read_whole:
  "read_chunk sample_parse (sse sources_event) = [OnSources (JArr [JStr ''doc1.pdf''])]"
  "read_chunk sample_parse (sse content_event) = [OnContent (JStr ''Based on'')]"
  "read_chunk sample_parse (sse done_event) = []"
  "read_chunk sample_parse (sse error_event) = []"
  by (simp_all add: read_chunk_def sse_def handle_line_def startsWith_def trim_def is_space_def
      sample_parse_def sources_event_def content_event_def done_event_def error_event_def get_prop_def)

lemma same_bytes: "concat split_frames = concat whole_frames"
  by (simp add: split_frames_def split_head_def split_tail_def whole_frames_def sse_def
      sources_event_def)

lemma read_split:
  "read_chunk sample_parse split_head = []"
  "read_chunk sample_parse split_tail = [OnContent (JStr ''Based on'')]"
  by (simp_all add: split_head_def split_tail_def read_chunk_def sse_def handle_line_def
      startsWith_def trim_def is_space_def sample_parse_def sources_event_def content_event_def
      done_event_def error_event_def get_prop_def)

lemma send_stream_server:
  "sendChatMessage JSON_parse None (stream_server (cs, fin)) msg history () =
     ([(\<lparr>req_method = POST, req_url = ''http://localhost:8000/api/v1/chat'',
          req_body = ChatJson msg (slice_last 10 history)\<rparr>,
        Inr \<lparr>status = 200, json = Inl ''Unexpected token d'', body = Some (cs, fin)\<rparr>)],
      concat (map (read_chunk JSON_parse) cs),
      (case fin of EndOfStream \<Rightarrow> Inr () | ConnectionLost m \<Rightarrow> Inl (TypeError m)), ())"
  by (simp add: sendChatMessage_run sample_urls stream_server_def Let_def ok_def)

lemma handleSubmit_failed_answer:
  "handleSubmit sample_parse None (stream_server (failed_answer, EndOfStream)) sample_page () =
     ([(\<lparr>req_method = POST, req_url = ''http://localhost:8000/api/v1/chat'',
          req_body = ChatJson ''What is RAG?''
            [\<lparr>role = User, content = ''hi''\<rparr>, \<lparr>role = Assistant, content = []\<rparr>]\<rparr>,
        Inr \<lparr>status = 200, json = Inl ''Unexpected token d'',
             body = Some (failed_answer, EndOfStream)\<rparr>)],
      \<lparr>messages = [\<lparr>role = User, content = ''hi''\<rparr>, \<lparr>role = Assistant, content = []\<rparr>,
                   \<lparr>role = User, content = ''What is RAG?''\<rparr>,
                   \<lparr>role = Assistant, content = ''Based on''\<rparr>],
       input = [], isLoading = False, error = None, sources = JArr [JStr ''doc1.pdf'']\<rparr>,
      ())"
  by (simp add: handleSubmit_def sample_page_def send_stream_server Let_def slice_last_def
      failed_answer_def read_whole append_chunk_def)

text \<open>
  Claim C2. The claim has the client invoke \<open>onSources\<close> before any \<open>onContent\<close>. The
  consumer parses each chunk on its own and drops a line it cannot parse, so an event
  whose text is cut by a chunk boundary is lost. Here one answer, with its events in
  order, is delivered twice: in whole frames the callbacks are \<open>onSources\<close>, then
  \<open>onContent\<close>; cut inside the \<open>sources\<close> frame, \<open>onContent\<close> is invoked and
  \<open>onSources\<close> never is.
\<close>

theorem split_frame_drops_sources:
  "concat split_frames = concat whole_frames
   \<and> fst (snd (sendChatMessage sample_parse None (stream_server (whole_frames, EndOfStream))
                 ''What is RAG?'' [] ())) =
       [OnSources (JArr [JStr ''doc1.pdf'']), OnContent (JStr ''Based on'')]
   \<and> fst (snd (sendChatMessage sample_parse None (stream_server (split_frames, EndOfStream))
                 ''What is RAG?'' [] ())) =
       [OnContent (JStr ''Based on'')]"
  by (simp add: same_bytes send_stream_server)
     (simp add: whole_frames_def split_frames_def read_whole read_split)

text \<open>
  Claim C3. The claim has the caller see the failure when the stream holds an \<open>error\<close>
  event. The consumer has no branch for that type: on an answer that fails after its
  first fragment, \<open>sendChatMessage\<close> invokes the callbacks of the events before the
  failure and resolves, and the page ends with no error and the truncated answer as the
  assistant's message.
\<close>

theorem error_event_is_swallowed:
  "snd (sendChatMessage sample_parse None (stream_server (failed_answer, EndOfStream))
          ''What is RAG?'' [] ()) =
     ([OnSources (JArr [JStr ''doc1.pdf'']), OnContent (JStr ''Based on'')], Inr (), ())
   \<and> error (fst (snd (handleSubmit sample_parse None (stream_server (failed_answer, EndOfStream))
                        sample_page ()))) = None
   \<and> last (messages (fst (snd (handleSubmit sample_parse None
                        (stream_server (failed_answer, EndOfStream)) sample_page ())))) =
       \<lparr>role = Assistant, content = ''Based on''\<rparr>"
  by (simp add: send_stream_server handleSubmit_failed_answer)
     (simp add: failed_answer_def read_whole)

end
